theory Spec2Isabelle
  imports Main "HOL-Library.Word"
begin

unbundle bit_operations_syntax

section \<open>Machine types and system constants\<close>

text \<open>
  The library is C++ on Linux/epoll. A C++ \<open>int\<close> is a 32-bit word read in two's
  complement (\<open>sint\<close>); \<open>std::size_t\<close>, \<open>std::uint64_t\<close> and the representation of
  \<open>std::chrono::milliseconds\<close> are 64-bit words; \<open>std::uint8_t\<close> is an 8-bit word.
  A data member \<open>x_\<close> of class \<open>c\<close> is the record field \<open>c_x\<close>; a member function
  \<open>c::f\<close> is the constant \<open>c_f\<close>.
\<close>

type_synonym u8 = "8 word"
type_synonym u32 = "32 word"
type_synonym u64 = "64 word"
type_synonym i32 = "32 word"
type_synonym i64 = "64 word"

text \<open>The flag values of \<open><sys/epoll.h>\<close> and the error numbers of \<open><errno.h>\<close> on Linux.\<close>

definition EPOLLIN :: u32 where "EPOLLIN = 0x001"
definition EPOLLPRI :: u32 where "EPOLLPRI = 0x002"
definition EPOLLOUT :: u32 where "EPOLLOUT = 0x004"
definition EPOLLERR :: u32 where "EPOLLERR = 0x008"
definition EPOLLHUP :: u32 where "EPOLLHUP = 0x010"
definition EPOLLRDHUP :: u32 where "EPOLLRDHUP = 0x2000"
definition EPOLLET :: u32 where "EPOLLET = 0x80000000"

definition ENOENT :: i32 where "ENOENT = 2"
definition EINTR :: i32 where "EINTR = 4"
definition EEXIST :: i32 where "EEXIST = 17"
definition EINVAL :: i32 where "EINVAL = 22"

text \<open>The flags of \<open><sys/eventfd.h>\<close> on Linux.\<close>

definition EFD_NONBLOCK :: i32 where "EFD_NONBLOCK = 0x800"
definition EFD_CLOEXEC :: i32 where "EFD_CLOEXEC = 0x80000"

section \<open>error.hpp, token.hpp, interest.hpp\<close>

record error =
  error_code :: i32

definition error_is_interrupted :: "error \<Rightarrow> bool" where
  "error_is_interrupted e = (error_code e = EINTR)"

definition error_is_already_exists :: "error \<Rightarrow> bool" where
  "error_is_already_exists e = (error_code e = EEXIST)"

text \<open>\<open>result<t>\<close> is \<open>std::expected<t, error>\<close>: \<open>Inl\<close> the error, \<open>Inr\<close> the value.\<close>

type_synonym 'a result = "error + 'a"
type_synonym void_result = "error + unit"

record token =
  token_value :: u64

definition k_readable :: u8 where "k_readable = 1"
definition k_writable :: u8 where "k_writable = 2"
definition k_priority :: u8 where "k_priority = 4"

record interest =
  interest_bits :: u8

definition interest_readable :: interest where
  "interest_readable = \<lparr>interest_bits = k_readable\<rparr>"

definition interest_writable :: interest where
  "interest_writable = \<lparr>interest_bits = k_writable\<rparr>"

definition interest_priority :: interest where
  "interest_priority = \<lparr>interest_bits = k_priority\<rparr>"

definition interest_is_readable :: "interest \<Rightarrow> bool" where
  "interest_is_readable i = (interest_bits i AND k_readable \<noteq> 0)"

definition interest_is_writable :: "interest \<Rightarrow> bool" where
  "interest_is_writable i = (interest_bits i AND k_writable \<noteq> 0)"

definition interest_is_priority :: "interest \<Rightarrow> bool" where
  "interest_is_priority i = (interest_bits i AND k_priority \<noteq> 0)"

definition interest_is_empty :: "interest \<Rightarrow> bool" where
  "interest_is_empty i = (interest_bits i = 0)"

definition interest_union :: "interest \<Rightarrow> interest \<Rightarrow> interest" where
  "interest_union a b = \<lparr>interest_bits = interest_bits a OR interest_bits b\<rparr>"

definition interest_remove :: "interest \<Rightarrow> interest \<Rightarrow> interest" where
  "interest_remove a b = \<lparr>interest_bits = interest_bits a AND NOT (interest_bits b)\<rparr>"

section \<open>The kernel\<close>

text \<open>
  \<open>epoll_event\<close> is the kernel's struct: a flag word and the 64-bit member of the
  user-data union.
\<close>

record epoll_event =
  events :: u32
  data_u64 :: u64

datatype ctl_op = EPOLL_CTL_ADD | EPOLL_CTL_DEL | EPOLL_CTL_MOD

text \<open>
  The system calls the core makes, with their arguments. For \<open>epoll_wait\<close>: the epoll
  descriptor, \<open>maxevents\<close> and the timeout; the buffer pointer is the caller's buffer.
  For \<open>epoll_ctl\<close>: the epoll descriptor, the operation, the target descriptor and the
  event struct (\<open>None\<close> for \<open>nullptr\<close>). For \<open>eventfd\<close>: the initial value and the flags.
\<close>

datatype syscall =
    Epoll_wait i32 i32 i32
  | Epoll_ctl i32 ctl_op i32 "epoll_event option"
  | Dup i32
  | Close i32
  | Eventfd u32 i32

text \<open>
  What a call gives back: its return value, the value of \<open>errno\<close> after it, and (for
  \<open>epoll_wait\<close>) the events the kernel delivers.
\<close>

record reply =
  ret :: i32
  err :: i32
  out :: "epoll_event list"

text \<open>
  The kernel is outside the library. It is a parameter: any function from the history of
  calls made so far (the newest last) to the reply of the newest one. The state threaded
  through the library's operations is this history, so every effect of the library on
  the kernel is visible in it.
\<close>

type_synonym kernel = "syscall list \<Rightarrow> reply"
type_synonym trace = "syscall list"

definition do_syscall :: "kernel \<Rightarrow> syscall \<Rightarrow> trace \<Rightarrow> reply \<times> trace" where
  "do_syscall K c tr = (K (tr @ [c]), tr @ [c])"

section \<open>event.hpp: event view\<close>

text \<open>An \<open>event\<close> borrows one raw event; the model holds the raw event it points at.\<close>

record event =
  event_raw :: epoll_event

definition event_tok :: "event \<Rightarrow> token" where
  "event_tok e = \<lparr>token_value = data_u64 (event_raw e)\<rparr>"

definition event_is_readable :: "event \<Rightarrow> bool" where
  "event_is_readable e = (events (event_raw e) AND EPOLLIN \<noteq> 0)"

definition event_is_writable :: "event \<Rightarrow> bool" where
  "event_is_writable e = (events (event_raw e) AND EPOLLOUT \<noteq> 0)"

definition event_is_error :: "event \<Rightarrow> bool" where
  "event_is_error e = (events (event_raw e) AND EPOLLERR \<noteq> 0)"

definition event_is_read_closed :: "event \<Rightarrow> bool" where
  "event_is_read_closed e = (events (event_raw e) AND (EPOLLHUP OR EPOLLRDHUP) \<noteq> 0)"

definition event_is_write_closed :: "event \<Rightarrow> bool" where
  "event_is_write_closed e = (events (event_raw e) AND (EPOLLHUP OR EPOLLERR) \<noteq> 0)"

definition event_is_priority :: "event \<Rightarrow> bool" where
  "event_is_priority e = (events (event_raw e) AND EPOLLPRI \<noteq> 0)"

section \<open>event.hpp: event batch\<close>

text \<open>
  \<open>events\<close> owns an array of \<open>capacity\<close> raw events (value-initialised by
  \<open>std::make_unique<raw_event[]>\<close>) and a current length.
\<close>

record events =
  events_buf :: "epoll_event list"
  events_capacity :: u64
  events_len :: u64

definition events_new :: "u64 \<Rightarrow> events" where
  "events_new capacity =
     \<lparr>events_buf = replicate (unat capacity) \<lparr>events = 0, data_u64 = 0\<rparr>,
      events_capacity = capacity, events_len = 0\<rparr>"

definition events_size :: "events \<Rightarrow> u64" where
  "events_size evs = events_len evs"

definition events_is_empty :: "events \<Rightarrow> bool" where
  "events_is_empty evs = (events_len evs = 0)"

text \<open>
  \<open>operator[]\<close> is \<open>event{buf_[i]}\<close>: it reads slot \<open>i\<close> of the array and consults
  neither \<open>len_\<close> nor \<open>capacity_\<close>. A read outside the allocated array is undefined
  behaviour in C++; the model returns \<open>None\<close> there.
\<close>

definition events_index :: "events \<Rightarrow> u64 \<Rightarrow> event option" where
  "events_index evs i =
     (if unat i < length (events_buf evs) then Some \<lparr>event_raw = events_buf evs ! unat i\<rparr>
      else None)"

text \<open>Iteration from \<open>begin()\<close> to \<open>end()\<close>: the first \<open>len_\<close> slots.\<close>

definition events_iterate :: "events \<Rightarrow> event list" where
  "events_iterate evs =
     map (\<lambda>r. \<lparr>event_raw = r\<rparr>) (take (unat (events_len evs)) (events_buf evs))"

definition events_raw_buf :: "events \<Rightarrow> epoll_event list" where
  "events_raw_buf evs = events_buf evs"

text \<open>\<open>static_cast<int>(capacity_)\<close>: the low 32 bits.\<close>

definition events_raw_capacity :: "events \<Rightarrow> i32" where
  "events_raw_capacity evs = ucast (events_capacity evs)"

definition events_set_len :: "events \<Rightarrow> u64 \<Rightarrow> events" where
  "events_set_len evs len = evs\<lparr>events_len := len\<rparr>"

definition events_clear :: "events \<Rightarrow> events" where
  "events_clear evs = evs\<lparr>events_len := 0\<rparr>"

section \<open>The descriptor handle of \<open>fd_guard.hpp\<close>\<close>

record fd_guard =
  fd_guard_fd :: i32

definition fd_guard_default :: fd_guard where
  "fd_guard_default = \<lparr>fd_guard_fd = -1\<rparr>"

definition fd_guard_from :: "i32 \<Rightarrow> fd_guard" where
  "fd_guard_from fd = \<lparr>fd_guard_fd = fd\<rparr>"

text \<open>The destructor.\<close>

definition fd_guard_destroy :: "kernel \<Rightarrow> fd_guard \<Rightarrow> trace \<Rightarrow> trace" where
  "fd_guard_destroy K g tr =
     (if 0 \<le> sint (fd_guard_fd g) then snd (do_syscall K (Close (fd_guard_fd g)) tr) else tr)"

text \<open>The move constructor gives the new handle and what is left of the old one.\<close>

definition fd_guard_move_construct :: "fd_guard \<Rightarrow> fd_guard \<times> fd_guard" where
  "fd_guard_move_construct other = (\<lparr>fd_guard_fd = fd_guard_fd other\<rparr>, other\<lparr>fd_guard_fd := -1\<rparr>)"

text \<open>
  Move assignment; \<open>same\<close> tells whether \<open>this\<close> and \<open>other\<close> are one object
  (\<open>this != &other\<close> is \<open>\<not> same\<close>). It gives \<open>this\<close> and \<open>other\<close> afterwards.
\<close>

definition fd_guard_move_assign ::
  "kernel \<Rightarrow> bool \<Rightarrow> fd_guard \<Rightarrow> fd_guard \<Rightarrow> trace \<Rightarrow> fd_guard \<times> fd_guard \<times> trace" where
  "fd_guard_move_assign K same this other tr =
     (if \<not> same then
        (let tr1 = (if 0 \<le> sint (fd_guard_fd this)
                    then snd (do_syscall K (Close (fd_guard_fd this)) tr) else tr)
         in (this\<lparr>fd_guard_fd := fd_guard_fd other\<rparr>, other\<lparr>fd_guard_fd := -1\<rparr>, tr1))
      else (this, other, tr))"

definition fd_guard_raw_fd :: "fd_guard \<Rightarrow> i32" where
  "fd_guard_raw_fd g = fd_guard_fd g"

definition fd_guard_bool :: "fd_guard \<Rightarrow> bool" where
  "fd_guard_bool g = (0 \<le> sint (fd_guard_fd g))"

definition fd_guard_release :: "fd_guard \<Rightarrow> i32 \<times> fd_guard" where
  "fd_guard_release g = (fd_guard_fd g, g\<lparr>fd_guard_fd := -1\<rparr>)"

definition fd_guard_reset :: "kernel \<Rightarrow> fd_guard \<Rightarrow> i32 \<Rightarrow> trace \<Rightarrow> fd_guard \<times> trace" where
  "fd_guard_reset K g fd tr =
     (let tr1 = (if 0 \<le> sint (fd_guard_fd g)
                 then snd (do_syscall K (Close (fd_guard_fd g)) tr) else tr)
      in (g\<lparr>fd_guard_fd := fd\<rparr>, tr1))"

section \<open>The selector of \<open>epoll_selector.cpp\<close>\<close>

record epoll_selector =
  epoll_selector_epoll_fd :: fd_guard

definition epoll_selector_raw_fd :: "epoll_selector \<Rightarrow> i32" where
  "epoll_selector_raw_fd s = fd_guard_raw_fd (epoll_selector_epoll_fd s)"

text \<open>The destructor of a selector destroys its descriptor handle.\<close>

definition epoll_selector_destroy :: "kernel \<Rightarrow> epoll_selector \<Rightarrow> trace \<Rightarrow> trace" where
  "epoll_selector_destroy K s tr = fd_guard_destroy K (epoll_selector_epoll_fd s) tr"

definition interest_to_epoll :: "interest \<Rightarrow> u32" where
  "interest_to_epoll i =
     (let flags0 = EPOLLET;
          flags1 = (if interest_is_readable i then flags0 OR (EPOLLIN OR EPOLLRDHUP) else flags0);
          flags2 = (if interest_is_writable i then flags1 OR EPOLLOUT else flags1);
          flags3 = (if interest_is_priority i then flags2 OR EPOLLPRI else flags2)
      in flags3)"

text \<open>
  A successful \<open>epoll_wait\<close> that returns \<open>n\<close> has written \<open>n\<close> events to the front of
  the caller's buffer; the rest of the buffer keeps what it held.
\<close>

definition store_events :: "epoll_event list \<Rightarrow> epoll_event list \<Rightarrow> epoll_event list" where
  "store_events buf es = take (length buf) es @ drop (length es) buf"

definition deliver :: "epoll_event list \<Rightarrow> reply \<Rightarrow> epoll_event list" where
  "deliver buf r =
     (if 0 < sint (ret r) then store_events buf (take (nat (sint (ret r))) (out r)) else buf)"

text \<open>The loop condition of \<open>select\<close>: \<open>n < 0 && errno == EINTR\<close>.\<close>

definition interrupted_reply :: "reply \<Rightarrow> bool" where
  "interrupted_reply r = (sint (ret r) < 0 \<and> err r = EINTR)"

text \<open>
  The \<open>do ... while (n < 0 && errno == EINTR)\<close> loop of \<open>select\<close>. It gives the last
  return value, the \<open>errno\<close> it left, the buffer and the history; \<open>None\<close> when the loop
  never ends.
\<close>

partial_function (option) epoll_wait_loop ::
  "kernel \<Rightarrow> i32 \<Rightarrow> epoll_event list \<Rightarrow> i32 \<Rightarrow> i32 \<Rightarrow> trace
     \<Rightarrow> ((i32 \<times> i32) \<times> epoll_event list \<times> trace) option" where
  "epoll_wait_loop K epfd buf max_events timeout_ms tr =
     (let r = fst (do_syscall K (Epoll_wait epfd max_events timeout_ms) tr);
          tr' = snd (do_syscall K (Epoll_wait epfd max_events timeout_ms) tr);
          buf' = deliver buf r
      in if interrupted_reply r
         then epoll_wait_loop K epfd buf' max_events timeout_ms tr'
         else Some ((ret r, err r), buf', tr'))"

text \<open>
  The local \<open>timeout_ms\<close> of \<open>select\<close>: \<open>-1\<close>, overwritten by
  \<open>static_cast<int>(timeout->count())\<close> when the timeout is present. The cast keeps the
  low 32 bits of the 64-bit count.
\<close>

definition select_timeout_ms :: "i64 option \<Rightarrow> i32" where
  "select_timeout_ms timeout = (case timeout of None \<Rightarrow> -1 | Some t \<Rightarrow> scast t)"

definition epoll_selector_select ::
  "kernel \<Rightarrow> epoll_selector \<Rightarrow> epoll_event list \<Rightarrow> i32 \<Rightarrow> i64 option \<Rightarrow> trace
     \<Rightarrow> (i32 result \<times> epoll_event list \<times> trace) option" where
  "epoll_selector_select K s buf max_events timeout tr =
     (let timeout_ms = select_timeout_ms timeout in
      case epoll_wait_loop K (epoll_selector_raw_fd s) buf max_events timeout_ms tr of
        None \<Rightarrow> None
      | Some ((n, e), buf', tr') \<Rightarrow>
          if sint n < 0 then Some (Inl \<lparr>error_code = e\<rparr>, buf', tr')
          else Some (Inr n, buf', tr'))"

text \<open>\<open>tok.value()\<close> is a \<open>std::size_t\<close>, 64 bits wide, stored in \<open>ev.data.u64\<close>.\<close>

definition epoll_selector_register_fd ::
  "kernel \<Rightarrow> epoll_selector \<Rightarrow> i32 \<Rightarrow> token \<Rightarrow> interest \<Rightarrow> trace \<Rightarrow> void_result \<times> trace" where
  "epoll_selector_register_fd K s fd tok i tr =
     (let ev = \<lparr>events = interest_to_epoll i, data_u64 = token_value tok\<rparr>;
          r = fst (do_syscall K (Epoll_ctl (epoll_selector_raw_fd s) EPOLL_CTL_ADD fd (Some ev)) tr);
          tr' = snd (do_syscall K (Epoll_ctl (epoll_selector_raw_fd s) EPOLL_CTL_ADD fd (Some ev)) tr)
      in if sint (ret r) < 0 then (Inl \<lparr>error_code = err r\<rparr>, tr') else (Inr (), tr'))"

definition epoll_selector_reregister_fd ::
  "kernel \<Rightarrow> epoll_selector \<Rightarrow> i32 \<Rightarrow> token \<Rightarrow> interest \<Rightarrow> trace \<Rightarrow> void_result \<times> trace" where
  "epoll_selector_reregister_fd K s fd tok i tr =
     (let ev = \<lparr>events = interest_to_epoll i, data_u64 = token_value tok\<rparr>;
          r = fst (do_syscall K (Epoll_ctl (epoll_selector_raw_fd s) EPOLL_CTL_MOD fd (Some ev)) tr);
          tr' = snd (do_syscall K (Epoll_ctl (epoll_selector_raw_fd s) EPOLL_CTL_MOD fd (Some ev)) tr)
      in if sint (ret r) < 0 then (Inl \<lparr>error_code = err r\<rparr>, tr') else (Inr (), tr'))"

definition epoll_selector_deregister_fd ::
  "kernel \<Rightarrow> epoll_selector \<Rightarrow> i32 \<Rightarrow> trace \<Rightarrow> void_result \<times> trace" where
  "epoll_selector_deregister_fd K s fd tr =
     (let r = fst (do_syscall K (Epoll_ctl (epoll_selector_raw_fd s) EPOLL_CTL_DEL fd None) tr);
          tr' = snd (do_syscall K (Epoll_ctl (epoll_selector_raw_fd s) EPOLL_CTL_DEL fd None) tr)
      in if sint (ret r) < 0 then (Inl \<lparr>error_code = err r\<rparr>, tr') else (Inr (), tr'))"

definition epoll_selector_try_clone ::
  "kernel \<Rightarrow> epoll_selector \<Rightarrow> trace \<Rightarrow> epoll_selector result \<times> trace" where
  "epoll_selector_try_clone K s tr =
     (let r = fst (do_syscall K (Dup (epoll_selector_raw_fd s)) tr);
          tr' = snd (do_syscall K (Dup (epoll_selector_raw_fd s)) tr);
          new_fd = ret r
      in if sint new_fd < 0 then (Inl \<lparr>error_code = err r\<rparr>, tr')
         else (Inr \<lparr>epoll_selector_epoll_fd = fd_guard_from new_fd\<rparr>, tr'))"

section \<open>poll.cpp: registry and poll\<close>

text \<open>
  A registry holds a pointer to a selector. Selector objects live in a memory, at
  addresses; following a pointer to an address that holds no selector is undefined
  behaviour (\<open>None\<close>).
\<close>

type_synonym addr = nat
type_synonym memory = "addr \<rightharpoonup> epoll_selector"

record registry =
  registry_sel :: addr

definition registry_register_fd ::
  "kernel \<Rightarrow> memory \<Rightarrow> registry \<Rightarrow> i32 \<Rightarrow> token \<Rightarrow> interest \<Rightarrow> trace
     \<Rightarrow> (void_result \<times> trace) option" where
  "registry_register_fd K mem r fd tok i tr =
     (case mem (registry_sel r) of None \<Rightarrow> None
      | Some s \<Rightarrow> Some (epoll_selector_register_fd K s fd tok i tr))"

definition registry_reregister_fd ::
  "kernel \<Rightarrow> memory \<Rightarrow> registry \<Rightarrow> i32 \<Rightarrow> token \<Rightarrow> interest \<Rightarrow> trace
     \<Rightarrow> (void_result \<times> trace) option" where
  "registry_reregister_fd K mem r fd tok i tr =
     (case mem (registry_sel r) of None \<Rightarrow> None
      | Some s \<Rightarrow> Some (epoll_selector_reregister_fd K s fd tok i tr))"

definition registry_deregister_fd ::
  "kernel \<Rightarrow> memory \<Rightarrow> registry \<Rightarrow> i32 \<Rightarrow> trace \<Rightarrow> (void_result \<times> trace) option" where
  "registry_deregister_fd K mem r fd tr =
     (case mem (registry_sel r) of None \<Rightarrow> None
      | Some s \<Rightarrow> Some (epoll_selector_deregister_fd K s fd tr))"

text \<open>
  \<open>try_clone\<close>: the local \<open>cloned\<close> holds the duplicate selector and is destroyed when
  the function returns; the registry returned is built from \<open>sel_\<close>.
\<close>

definition registry_try_clone ::
  "kernel \<Rightarrow> memory \<Rightarrow> registry \<Rightarrow> trace \<Rightarrow> (registry result \<times> trace) option" where
  "registry_try_clone K mem r tr =
     (case mem (registry_sel r) of None \<Rightarrow> None
      | Some s \<Rightarrow>
          (case epoll_selector_try_clone K s tr of
             (Inl e, tr1) \<Rightarrow> Some (Inl e, tr1)
           | (Inr cloned, tr1) \<Rightarrow>
               Some (Inr \<lparr>registry_sel = registry_sel r\<rparr>, epoll_selector_destroy K cloned tr1)))"

record poll =
  poll_sel :: epoll_selector

text \<open>
  \<open>do_poll\<close>: \<open>static_cast<std::size_t>(n.value())\<close> sign-extends the 32-bit count to
  64 bits.
\<close>

definition poll_do_poll ::
  "kernel \<Rightarrow> poll \<Rightarrow> events \<Rightarrow> i64 option \<Rightarrow> trace \<Rightarrow> (void_result \<times> events \<times> trace) option" where
  "poll_do_poll K p evs timeout tr =
     (let evs1 = events_clear evs in
      case epoll_selector_select K (poll_sel p) (events_raw_buf evs1) (events_raw_capacity evs1)
             timeout tr of
        None \<Rightarrow> None
      | Some (n, buf', tr') \<Rightarrow>
          (let evs2 = evs1\<lparr>events_buf := buf'\<rparr> in
           case n of
             Inl e \<Rightarrow> Some (Inl e, evs2, tr')
           | Inr v \<Rightarrow> Some (Inr (), events_set_len evs2 (scast v), tr')))"

section \<open>The registering members of the raw fd, the UDP socket and the local-family listener\<close>

record raw_fd =
  raw_fd_fd :: i32

definition raw_fd_tio_register ::
  "kernel \<Rightarrow> memory \<Rightarrow> raw_fd \<Rightarrow> registry \<Rightarrow> token \<Rightarrow> interest \<Rightarrow> trace
     \<Rightarrow> (void_result \<times> trace) option" where
  "raw_fd_tio_register K mem w reg tok intr tr =
     registry_register_fd K mem reg (raw_fd_fd w) tok intr tr"

definition raw_fd_tio_reregister ::
  "kernel \<Rightarrow> memory \<Rightarrow> raw_fd \<Rightarrow> registry \<Rightarrow> token \<Rightarrow> interest \<Rightarrow> trace
     \<Rightarrow> (void_result \<times> trace) option" where
  "raw_fd_tio_reregister K mem w reg tok intr tr =
     registry_reregister_fd K mem reg (raw_fd_fd w) tok intr tr"

definition raw_fd_tio_deregister ::
  "kernel \<Rightarrow> memory \<Rightarrow> raw_fd \<Rightarrow> registry \<Rightarrow> trace \<Rightarrow> (void_result \<times> trace) option" where
  "raw_fd_tio_deregister K mem w reg tr = registry_deregister_fd K mem reg (raw_fd_fd w) tr"

record udp_socket =
  udp_socket_fd :: fd_guard

definition udp_socket_tio_register ::
  "kernel \<Rightarrow> memory \<Rightarrow> udp_socket \<Rightarrow> registry \<Rightarrow> token \<Rightarrow> interest \<Rightarrow> trace
     \<Rightarrow> (void_result \<times> trace) option" where
  "udp_socket_tio_register K mem w reg tok intr tr =
     registry_register_fd K mem reg (fd_guard_raw_fd (udp_socket_fd w)) tok intr tr"

definition udp_socket_tio_reregister ::
  "kernel \<Rightarrow> memory \<Rightarrow> udp_socket \<Rightarrow> registry \<Rightarrow> token \<Rightarrow> interest \<Rightarrow> trace
     \<Rightarrow> (void_result \<times> trace) option" where
  "udp_socket_tio_reregister K mem w reg tok intr tr =
     registry_reregister_fd K mem reg (fd_guard_raw_fd (udp_socket_fd w)) tok intr tr"

definition udp_socket_tio_deregister ::
  "kernel \<Rightarrow> memory \<Rightarrow> udp_socket \<Rightarrow> registry \<Rightarrow> trace \<Rightarrow> (void_result \<times> trace) option" where
  "udp_socket_tio_deregister K mem w reg tr =
     registry_deregister_fd K mem reg (fd_guard_raw_fd (udp_socket_fd w)) tr"

record unix_listener =
  unix_listener_fd :: fd_guard

definition unix_listener_tio_register ::
  "kernel \<Rightarrow> memory \<Rightarrow> unix_listener \<Rightarrow> registry \<Rightarrow> token \<Rightarrow> interest \<Rightarrow> trace
     \<Rightarrow> (void_result \<times> trace) option" where
  "unix_listener_tio_register K mem w reg tok intr tr =
     registry_register_fd K mem reg (fd_guard_raw_fd (unix_listener_fd w)) tok intr tr"

definition unix_listener_tio_reregister ::
  "kernel \<Rightarrow> memory \<Rightarrow> unix_listener \<Rightarrow> registry \<Rightarrow> token \<Rightarrow> interest \<Rightarrow> trace
     \<Rightarrow> (void_result \<times> trace) option" where
  "unix_listener_tio_reregister K mem w reg tok intr tr =
     registry_reregister_fd K mem reg (fd_guard_raw_fd (unix_listener_fd w)) tok intr tr"

definition unix_listener_tio_deregister ::
  "kernel \<Rightarrow> memory \<Rightarrow> unix_listener \<Rightarrow> registry \<Rightarrow> trace
     \<Rightarrow> (void_result \<times> trace) option" where
  "unix_listener_tio_deregister K mem w reg tr =
     registry_deregister_fd K mem reg (fd_guard_raw_fd (unix_listener_fd w)) tr"

section \<open>Creating a waker\<close>

record eventfd_waker =
  eventfd_waker_fd :: fd_guard

definition eventfd_waker_raw_fd :: "eventfd_waker \<Rightarrow> i32" where
  "eventfd_waker_raw_fd w = fd_guard_raw_fd (eventfd_waker_fd w)"

definition eventfd_waker_destroy :: "kernel \<Rightarrow> eventfd_waker \<Rightarrow> trace \<Rightarrow> trace" where
  "eventfd_waker_destroy K w tr = fd_guard_destroy K (eventfd_waker_fd w) tr"

definition eventfd_waker_create :: "kernel \<Rightarrow> trace \<Rightarrow> eventfd_waker result \<times> trace" where
  "eventfd_waker_create K tr =
     (let r = fst (do_syscall K (Eventfd 0 (EFD_CLOEXEC OR EFD_NONBLOCK)) tr);
          tr' = snd (do_syscall K (Eventfd 0 (EFD_CLOEXEC OR EFD_NONBLOCK)) tr);
          fd = ret r
      in if sint fd < 0 then (Inl \<lparr>error_code = err r\<rparr>, tr')
         else (Inr \<lparr>eventfd_waker_fd = fd_guard_from fd\<rparr>, tr'))"

text \<open>
  A \<open>waker\<close> holds a shared pointer to an \<open>inner\<close> that holds the \<open>eventfd_waker\<close>; the
  model holds the \<open>eventfd_waker\<close>. In \<open>create\<close>, when the registration fails the local
  \<open>ew\<close> is destroyed on return, which closes the new descriptor.
\<close>

record waker =
  waker_inner :: eventfd_waker

definition waker_create ::
  "kernel \<Rightarrow> memory \<Rightarrow> registry \<Rightarrow> token \<Rightarrow> trace \<Rightarrow> (waker result \<times> trace) option" where
  "waker_create K mem reg tok tr =
     (case eventfd_waker_create K tr of
        (Inl e, tr1) \<Rightarrow> Some (Inl e, tr1)
      | (Inr ew, tr1) \<Rightarrow>
          (case registry_register_fd K mem reg (eventfd_waker_raw_fd ew) tok interest_readable tr1 of
             None \<Rightarrow> None
           | Some (Inl e, tr2) \<Rightarrow> Some (Inl e, eventfd_waker_destroy K ew tr2)
           | Some (Inr u, tr2) \<Rightarrow> Some (Inr \<lparr>waker_inner = ew\<rparr>, tr2)))"

section \<open>source.hpp and the wrappers' registration members\<close>

text \<open>
  The standard wrappers whose class definitions are in the headers at hand:
  \<open>net/tcp_listener.hpp\<close>, \<open>net/tcp_stream.hpp\<close>, \<open>net/udp_socket.hpp\<close>,
  \<open>unix/unix_listener.hpp\<close>, \<open>unix/unix_datagram.hpp\<close>, \<open>unix/pipe.hpp\<close>,
  \<open>raw_fd.hpp\<close> and \<open>waker.hpp\<close>.
\<close>

datatype wrapper =
    Tcp_listener | Tcp_stream | Udp_socket | Unix_listener | Unix_datagram
  | Pipe_sender | Pipe_receiver | Raw_fd | Waker

text \<open>
  The member functions of each class whose name ends in \<open>register\<close>, as declared. Each
  has the parameters \<open>(const registry&, token, interest)\<close> (the deregistering one
  \<open>(const registry&)\<close>), returns \<open>void_result\<close> and forwards to the registry with
  \<open>fd_.raw_fd()\<close> (\<open>raw_fd\<close>: with \<open>fd_\<close>). Class \<open>waker\<close> declares \<open>create\<close>,
  \<open>wake\<close> and \<open>drain\<close> only.
\<close>

fun registration_members :: "wrapper \<Rightarrow> string list" where
  "registration_members Tcp_listener = [''mio_register'', ''mio_reregister'', ''mio_deregister'']"
| "registration_members Tcp_stream = [''mio_register'', ''mio_reregister'', ''mio_deregister'']"
| "registration_members Udp_socket = [''tio_register'', ''tio_reregister'', ''tio_deregister'']"
| "registration_members Unix_listener = [''tio_register'', ''tio_reregister'', ''tio_deregister'']"
| "registration_members Unix_datagram = [''mio_register'', ''mio_reregister'', ''mio_deregister'']"
| "registration_members Pipe_sender = [''mio_register'', ''mio_reregister'', ''mio_deregister'']"
| "registration_members Pipe_receiver = [''mio_register'', ''mio_reregister'', ''mio_deregister'']"
| "registration_members Raw_fd = [''tio_register'', ''tio_reregister'', ''tio_deregister'']"
| "registration_members Waker = []"

text \<open>The concept \<open>source\<close>: the three expressions it requires must resolve.\<close>

definition source :: "wrapper \<Rightarrow> bool" where
  "source w =
     (''tio_register'' \<in> set (registration_members w)
      \<and> ''tio_reregister'' \<in> set (registration_members w)
      \<and> ''tio_deregister'' \<in> set (registration_members w))"

text \<open>
  \<open>registry::register_source\<close>, \<open>reregister_source\<close> and \<open>deregister_source\<close> are
  constrained by \<open>source<s_t>\<close>; their bodies call \<open>s.mio_register\<close>,
  \<open>s.mio_reregister\<close> and \<open>s.mio_deregister\<close>. A call is well-formed when the
  constraint holds and the member the body names exists.
\<close>

definition register_source_well_formed :: "wrapper \<Rightarrow> bool" where
  "register_source_well_formed w = (source w \<and> ''mio_register'' \<in> set (registration_members w))"

definition reregister_source_well_formed :: "wrapper \<Rightarrow> bool" where
  "reregister_source_well_formed w =
     (source w \<and> ''mio_reregister'' \<in> set (registration_members w))"

definition deregister_source_well_formed :: "wrapper \<Rightarrow> bool" where
  "deregister_source_well_formed w =
     (source w \<and> ''mio_deregister'' \<in> set (registration_members w))"

section \<open>Kernels and objects for concrete runs\<close>

definition EBADF :: i32 where "EBADF = 9"

text \<open>A kernel with nothing to report: every call returns 0.\<close>

definition kernel_idle :: kernel where
  "kernel_idle tr = \<lparr>ret = 0, err = 0, out = []\<rparr>"

text \<open>
  A kernel that refuses a wait with no room for events, as \<open>epoll_wait(2)\<close> documents
  (\<open>EINVAL\<close>: \<open>maxevents\<close> is less than or equal to zero), and is idle otherwise.
\<close>

definition kernel_needs_room :: kernel where
  "kernel_needs_room tr =
     (case rev tr of
        Epoll_wait epfd mx t # _ \<Rightarrow>
          if sint mx \<le> 0 then \<lparr>ret = -1, err = EINVAL, out = []\<rparr>
          else \<lparr>ret = 0, err = 0, out = []\<rparr>
      | _ \<Rightarrow> \<lparr>ret = 0, err = 0, out = []\<rparr>)"

text \<open>A kernel whose first two calls are interrupted by a signal; the third delivers one event.\<close>

definition kernel_signal_then_event :: kernel where
  "kernel_signal_then_event tr =
     (if length tr \<le> 2 then \<lparr>ret = -1, err = EINTR, out = []\<rparr>
      else \<lparr>ret = 1, err = EINTR, out = [\<lparr>events = EPOLLIN, data_u64 = 7\<rparr>]\<rparr>)"

text \<open>A kernel whose first call is interrupted and whose later calls fail with \<open>EBADF\<close>.\<close>

definition kernel_signal_then_fail :: kernel where
  "kernel_signal_then_fail tr =
     (if length tr \<le> 1 then \<lparr>ret = -1, err = EINTR, out = []\<rparr>
      else \<lparr>ret = -1, err = EBADF, out = []\<rparr>)"

text \<open>
  A kernel where \<open>dup\<close> and \<open>eventfd\<close> return descriptor 7 and every other call
  returns 0.
\<close>

definition kernel_dup_7 :: kernel where
  "kernel_dup_7 tr =
     (case rev tr of
        Dup fd # _ \<Rightarrow> \<lparr>ret = 7, err = 0, out = []\<rparr>
      | Eventfd v fl # _ \<Rightarrow> \<lparr>ret = 7, err = 0, out = []\<rparr>
      | _ \<Rightarrow> \<lparr>ret = 0, err = 0, out = []\<rparr>)"

definition selector_3 :: epoll_selector where
  "selector_3 = \<lparr>epoll_selector_epoll_fd = fd_guard_from 3\<rparr>"

section \<open>Lemmas on casts and on the wait loop\<close>

lemma scast_in_range:
  fixes t :: "64 word"
  assumes "- (2 ^ 31) \<le> sint t" "sint t < 2 ^ 31"
  shows "sint (scast t :: 32 word) = sint t"
proof -
  have "sint (scast t :: 32 word) = signed_take_bit 31 (sint t)"
    by (simp add: signed_scast_eq)
  also have "\<dots> = sint t"
    using assms by (rule signed_take_bit_int_eq_self)
  finally show ?thesis .
qed

lemma scast_up:
  fixes n :: "32 word"
  assumes "0 \<le> sint n"
  shows "unat (scast n :: 64 word) = nat (sint n)"
proof -
  have "sint n < 2 ^ 31"
    using sint_less [of n] by simp
  moreover have "(2::int) ^ 31 \<le> 2 ^ 64"
    by (rule power_increasing) simp_all
  ultimately have lt: "sint n < 2 ^ 64"
    by (rule less_le_trans)
  have "uint (scast n :: 64 word) = take_bit 64 (sint n)"
    unfolding scast_eq uint_word_of_int_eq by simp
  also have "\<dots> = sint n"
    using assms lt by (rule take_bit_int_eq_self)
  finally have "uint (scast n :: 64 word) = sint n" .
  then show ?thesis
    by (simp add: unat_eq_nat_uint del: nat_uint_eq)
qed

lemma sint_le_uint:
  fixes w :: "32 word"
  shows "sint w \<le> uint w"
proof -
  have "- (2 ^ 31) \<le> uint w"
    by (rule order_trans [of _ 0]) simp_all
  then show ?thesis
    by (simp add: sint_uint signed_take_bit_int_less_eq_self_iff)
qed

lemma uint_ucast_le:
  fixes c :: "64 word"
  shows "uint (ucast c :: 32 word) \<le> uint c"
  by (simp add: unsigned_ucast_eq take_bit_int_less_eq_self_iff)

lemma count_le_capacity:
  fixes n :: "32 word" and c :: "64 word"
  assumes "sint n \<le> sint (ucast c :: 32 word)"
  shows "nat (sint n) \<le> unat c"
proof -
  have "sint n \<le> uint c"
    using assms sint_le_uint [of "ucast c"] uint_ucast_le [of c] by linarith
  then show ?thesis by (simp add: unat_eq_nat_uint del: nat_uint_eq)
qed

lemma store_events_length: "length (store_events buf es) = length buf"
  by (auto simp add: store_events_def min_def)

lemma deliver_length: "length (deliver buf r) = length buf"
  by (simp add: deliver_def store_events_length)

lemma deliver_interrupted: "interrupted_reply r \<Longrightarrow> deliver buf r = buf"
  by (simp add: deliver_def interrupted_reply_def)

lemma epoll_wait_loop_retry:
  assumes "interrupted_reply (K (tr @ [Epoll_wait epfd mx tmo]))"
  shows "epoll_wait_loop K epfd buf mx tmo tr =
         epoll_wait_loop K epfd buf mx tmo (tr @ [Epoll_wait epfd mx tmo])"
  using assms
  by (subst epoll_wait_loop.simps) (simp add: do_syscall_def Let_def deliver_interrupted)

lemma epoll_wait_loop_done:
  assumes "\<not> interrupted_reply (K (tr @ [Epoll_wait epfd mx tmo]))"
  shows "epoll_wait_loop K epfd buf mx tmo tr =
         Some ((ret (K (tr @ [Epoll_wait epfd mx tmo])), err (K (tr @ [Epoll_wait epfd mx tmo]))),
               deliver buf (K (tr @ [Epoll_wait epfd mx tmo])), tr @ [Epoll_wait epfd mx tmo])"
  using assms
  by (subst epoll_wait_loop.simps) (simp add: do_syscall_def Let_def)

lemma epoll_wait_loop_returns:
  assumes "\<forall>j<k. interrupted_reply (K (tr @ replicate (Suc j) (Epoll_wait epfd mx tmo)))"
    and "\<not> interrupted_reply (K (tr @ replicate (Suc k) (Epoll_wait epfd mx tmo)))"
  shows "epoll_wait_loop K epfd buf mx tmo tr =
         Some ((ret (K (tr @ replicate (Suc k) (Epoll_wait epfd mx tmo))),
                err (K (tr @ replicate (Suc k) (Epoll_wait epfd mx tmo)))),
               deliver buf (K (tr @ replicate (Suc k) (Epoll_wait epfd mx tmo))),
               tr @ replicate (Suc k) (Epoll_wait epfd mx tmo))"
  using assms
proof (induction k arbitrary: tr)
  case 0
  then show ?case using epoll_wait_loop_done [of K tr epfd mx tmo buf] by simp
next
  case (Suc k)
  let ?c = "Epoll_wait epfd mx tmo"
  have shift: "\<And>j. (tr @ [?c]) @ replicate (Suc j) ?c = tr @ replicate (Suc (Suc j)) ?c"
    by simp
  from Suc.prems(1) have first: "interrupted_reply (K (tr @ [?c]))"
    by (metis replicate_0 replicate_Suc zero_less_Suc)
  have "\<forall>j<k. interrupted_reply (K ((tr @ [?c]) @ replicate (Suc j) ?c))"
  proof (intro allI impI)
    fix j assume "j < k"
    then have "Suc j < Suc k" by simp
    with Suc.prems(1) have "interrupted_reply (K (tr @ replicate (Suc (Suc j)) ?c))"
      by blast
    then show "interrupted_reply (K ((tr @ [?c]) @ replicate (Suc j) ?c))"
      by (simp only: shift)
  qed
  moreover have "\<not> interrupted_reply (K ((tr @ [?c]) @ replicate (Suc k) ?c))"
    using Suc.prems(2) unfolding shift .
  ultimately have "epoll_wait_loop K epfd buf mx tmo (tr @ [?c]) =
         Some ((ret (K ((tr @ [?c]) @ replicate (Suc k) ?c)),
                err (K ((tr @ [?c]) @ replicate (Suc k) ?c))),
               deliver buf (K ((tr @ [?c]) @ replicate (Suc k) ?c)),
               (tr @ [?c]) @ replicate (Suc k) ?c)"
    by (rule Suc.IH)
  then show ?case
    unfolding shift using epoll_wait_loop_retry [of K tr epfd mx tmo buf] first by simp
qed

lemma epoll_wait_loop_result:
  assumes "epoll_wait_loop K epfd buf mx tmo tr = Some y"
  shows "\<not> interrupted_reply (K (snd (snd y)))
     \<and> (\<exists>k. snd (snd y) = tr @ replicate (Suc k) (Epoll_wait epfd mx tmo))
     \<and> fst (fst y) = ret (K (snd (snd y))) \<and> snd (fst y) = err (K (snd (snd y)))
     \<and> fst (snd y) = deliver buf (K (snd (snd y)))"
proof (induction K epfd buf mx tmo tr y rule: epoll_wait_loop.raw_induct)
  case (1 loop K epfd buf mx tmo tr y)
  let ?c = "Epoll_wait epfd mx tmo"
  let ?r = "K (tr @ [?c])"
  show ?case
  proof (cases "interrupted_reply ?r")
    case True
    with 1(2) have "loop K epfd (deliver buf ?r) mx tmo (tr @ [?c]) = Some y"
      by (simp add: do_syscall_def Let_def)
    from 1(1)[OF this] obtain k where
      k: "snd (snd y) = (tr @ [?c]) @ replicate (Suc k) ?c" and
      rest: "\<not> interrupted_reply (K (snd (snd y)))"
        "fst (fst y) = ret (K (snd (snd y)))" "snd (fst y) = err (K (snd (snd y)))"
        "fst (snd y) = deliver (deliver buf ?r) (K (snd (snd y)))"
      by blast
    from k have "snd (snd y) = tr @ replicate (Suc (Suc k)) ?c" by simp
    then have "\<exists>k. snd (snd y) = tr @ replicate (Suc k) ?c" by blast
    with rest True show ?thesis by (simp add: deliver_interrupted)
  next
    case False
    with 1(2) have y: "y = ((ret ?r, err ?r), deliver buf ?r, tr @ [?c])"
      by (auto simp add: do_syscall_def Let_def split: if_splits)
    have "tr @ [?c] = tr @ replicate (Suc 0) ?c" by simp
    then have "\<exists>k. tr @ [?c] = tr @ replicate (Suc k) ?c" by blast
    with False y show ?thesis by simp
  qed
qed (rule assms)

section \<open>Readiness predicates of the event view\<close>

lemma and_or_nonzero:
  fixes x :: "'a::len word"
  shows "(x AND (a OR b) \<noteq> 0) = (x AND a \<noteq> 0 \<or> x AND b \<noteq> 0)"
  by (simp add: bit.conj_disj_distrib or_eq_0_iff)

text \<open>
  C9. For every raw event, \<open>is_read_closed\<close> holds iff the flag word has the hang-up
  bit or the read-hang-up bit, and \<open>is_write_closed\<close> holds iff it has the hang-up bit
  or the error bit; a flag word that is the error bit alone is write-closed (and is an
  error, and is not read-closed).
\<close>

theorem event_closed_predicates:
  "(event_is_read_closed e \<longleftrightarrow>
      (events (event_raw e) AND EPOLLHUP \<noteq> 0 \<or> events (event_raw e) AND EPOLLRDHUP \<noteq> 0))
   \<and> (event_is_write_closed e \<longleftrightarrow>
      (events (event_raw e) AND EPOLLHUP \<noteq> 0 \<or> events (event_raw e) AND EPOLLERR \<noteq> 0))
   \<and> event_is_write_closed \<lparr>event_raw = \<lparr>events = EPOLLERR, data_u64 = d\<rparr>\<rparr>
   \<and> event_is_error \<lparr>event_raw = \<lparr>events = EPOLLERR, data_u64 = d\<rparr>\<rparr>
   \<and> \<not> event_is_read_closed \<lparr>event_raw = \<lparr>events = EPOLLERR, data_u64 = d\<rparr>\<rparr>"
proof -
  have rc: "event_is_read_closed e \<longleftrightarrow>
      (events (event_raw e) AND EPOLLHUP \<noteq> 0 \<or> events (event_raw e) AND EPOLLRDHUP \<noteq> 0)"
    unfolding event_is_read_closed_def by (rule and_or_nonzero)
  have wc: "event_is_write_closed e \<longleftrightarrow>
      (events (event_raw e) AND EPOLLHUP \<noteq> 0 \<or> events (event_raw e) AND EPOLLERR \<noteq> 0)"
    unfolding event_is_write_closed_def by (rule and_or_nonzero)
  have e1: "event_is_write_closed \<lparr>event_raw = \<lparr>events = EPOLLERR, data_u64 = d\<rparr>\<rparr>"
    by (simp add: event_is_write_closed_def EPOLLERR_def EPOLLHUP_def)
  have e2: "event_is_error \<lparr>event_raw = \<lparr>events = EPOLLERR, data_u64 = d\<rparr>\<rparr>"
    by (simp add: event_is_error_def EPOLLERR_def)
  have e3: "\<not> event_is_read_closed \<lparr>event_raw = \<lparr>events = EPOLLERR, data_u64 = d\<rparr>\<rparr>"
    by (simp add: event_is_read_closed_def EPOLLERR_def EPOLLHUP_def EPOLLRDHUP_def)
  from rc wc e1 e2 e3 show ?thesis by blast
qed

theorem event_closed_predicates_witness:
  "event_is_read_closed \<lparr>event_raw = \<lparr>events = 0x2001, data_u64 = 7\<rparr>\<rparr>
   \<and> \<not> event_is_write_closed \<lparr>event_raw = \<lparr>events = 0x2001, data_u64 = 7\<rparr>\<rparr>
   \<and> event_is_write_closed \<lparr>event_raw = \<lparr>events = EPOLLERR, data_u64 = 7\<rparr>\<rparr>"
  using event_closed_predicates [of "\<lparr>event_raw = \<lparr>events = 0x2001, data_u64 = 7\<rparr>\<rparr>" 7]
  by (simp add: EPOLLHUP_def EPOLLRDHUP_def EPOLLERR_def)

section \<open>The wait loop and interruption\<close>

lemma select_result:
  assumes "epoll_selector_select K s buf mx timeout tr = Some (res, buf', tr')"
  shows "\<not> interrupted_reply (K tr')
     \<and> (\<exists>k. tr' = tr @ replicate (Suc k)
            (Epoll_wait (epoll_selector_raw_fd s) mx (select_timeout_ms timeout)))
     \<and> res = (if sint (ret (K tr')) < 0 then Inl \<lparr>error_code = err (K tr')\<rparr>
              else Inr (ret (K tr')))
     \<and> buf' = deliver buf (K tr')"
proof -
  from assms obtain n e where
    loop: "epoll_wait_loop K (epoll_selector_raw_fd s) buf mx (select_timeout_ms timeout) tr
            = Some ((n, e), buf', tr')"
    and res: "res = (if sint n < 0 then Inl \<lparr>error_code = e\<rparr> else Inr n)"
    by (auto simp add: epoll_selector_select_def Let_def split: option.splits if_splits)
  from epoll_wait_loop_result [OF loop] res show ?thesis by simp
qed

lemma select_retry:
  assumes "interrupted_reply
     (K (tr @ [Epoll_wait (epoll_selector_raw_fd s) mx (select_timeout_ms timeout)]))"
  shows "epoll_selector_select K s buf mx timeout tr =
         epoll_selector_select K s buf mx timeout
           (tr @ [Epoll_wait (epoll_selector_raw_fd s) mx (select_timeout_ms timeout)])"
  unfolding epoll_selector_select_def Let_def
  using epoll_wait_loop_retry [of K tr "epoll_selector_raw_fd s" mx "select_timeout_ms timeout" buf]
    assms
  by simp

lemma select_returns:
  assumes "\<forall>j<k. interrupted_reply (K (tr @ replicate (Suc j)
              (Epoll_wait (epoll_selector_raw_fd s) mx (select_timeout_ms timeout))))"
    and "\<not> interrupted_reply (K (tr @ replicate (Suc k)
              (Epoll_wait (epoll_selector_raw_fd s) mx (select_timeout_ms timeout))))"
  shows "epoll_selector_select K s buf mx timeout tr =
     Some (if sint (ret (K (tr @ replicate (Suc k)
                (Epoll_wait (epoll_selector_raw_fd s) mx (select_timeout_ms timeout))))) < 0
           then Inl \<lparr>error_code = err (K (tr @ replicate (Suc k)
                (Epoll_wait (epoll_selector_raw_fd s) mx (select_timeout_ms timeout))))\<rparr>
           else Inr (ret (K (tr @ replicate (Suc k)
                (Epoll_wait (epoll_selector_raw_fd s) mx (select_timeout_ms timeout))))),
           deliver buf (K (tr @ replicate (Suc k)
                (Epoll_wait (epoll_selector_raw_fd s) mx (select_timeout_ms timeout)))),
           tr @ replicate (Suc k)
                (Epoll_wait (epoll_selector_raw_fd s) mx (select_timeout_ms timeout)))"
  unfolding epoll_selector_select_def Let_def
  using epoll_wait_loop_returns [OF assms, of buf]
  by simp

text \<open>
  C6. \<open>select\<close> never returns an error classified as interrupted. Whenever the kernel
  wait call fails with \<open>EINTR\<close>, \<open>select\<close> goes on as a \<open>select\<close> started after that
  call: it waits again. And if the first \<open>k\<close> wait calls are interrupted and the next one
  is not, \<open>select\<close> returns after exactly \<open>k + 1\<close> wait calls.
\<close>

theorem select_never_interrupted:
  "(epoll_selector_select K s buf mx timeout tr = Some (Inl e, buf', tr')
      \<longrightarrow> \<not> error_is_interrupted e)
   \<and> (interrupted_reply
        (K (tr @ [Epoll_wait (epoll_selector_raw_fd s) mx (select_timeout_ms timeout)]))
      \<longrightarrow> epoll_selector_select K s buf mx timeout tr =
          epoll_selector_select K s buf mx timeout
            (tr @ [Epoll_wait (epoll_selector_raw_fd s) mx (select_timeout_ms timeout)]))
   \<and> ((\<forall>j<k. interrupted_reply (K (tr @ replicate (Suc j)
              (Epoll_wait (epoll_selector_raw_fd s) mx (select_timeout_ms timeout)))))
       \<and> \<not> interrupted_reply (K (tr @ replicate (Suc k)
              (Epoll_wait (epoll_selector_raw_fd s) mx (select_timeout_ms timeout))))
      \<longrightarrow> (\<exists>res buf''. epoll_selector_select K s buf mx timeout tr =
            Some (res, buf'', tr @ replicate (Suc k)
              (Epoll_wait (epoll_selector_raw_fd s) mx (select_timeout_ms timeout)))))"
proof (intro conjI impI)
  assume a: "epoll_selector_select K s buf mx timeout tr = Some (Inl e, buf', tr')"
  from select_result [OF a]
  have ni: "\<not> interrupted_reply (K tr')"
    and r: "Inl e = (if sint (ret (K tr')) < 0 then Inl \<lparr>error_code = err (K tr')\<rparr>
              else Inr (ret (K tr')))"
    by simp_all
  from r have "sint (ret (K tr')) < 0" and "e = \<lparr>error_code = err (K tr')\<rparr>"
    by (simp_all split: if_splits)
  with ni show "\<not> error_is_interrupted e"
    by (simp add: interrupted_reply_def error_is_interrupted_def)
next
  assume "interrupted_reply
        (K (tr @ [Epoll_wait (epoll_selector_raw_fd s) mx (select_timeout_ms timeout)]))"
  then show "epoll_selector_select K s buf mx timeout tr =
          epoll_selector_select K s buf mx timeout
            (tr @ [Epoll_wait (epoll_selector_raw_fd s) mx (select_timeout_ms timeout)])"
    by (rule select_retry)
next
  assume "(\<forall>j<k. interrupted_reply (K (tr @ replicate (Suc j)
              (Epoll_wait (epoll_selector_raw_fd s) mx (select_timeout_ms timeout)))))
       \<and> \<not> interrupted_reply (K (tr @ replicate (Suc k)
              (Epoll_wait (epoll_selector_raw_fd s) mx (select_timeout_ms timeout))))"
  then show "\<exists>res buf''. epoll_selector_select K s buf mx timeout tr =
            Some (res, buf'', tr @ replicate (Suc k)
              (Epoll_wait (epoll_selector_raw_fd s) mx (select_timeout_ms timeout)))"
    using select_returns [of k K tr s mx timeout buf] by blast
qed

text \<open>One interrupted wait, then a wait that fails with \<open>EBADF\<close>.\<close>

lemma selector_3_raw_fd: "epoll_selector_raw_fd selector_3 = 3"
  by (simp add: epoll_selector_raw_fd_def selector_3_def fd_guard_raw_fd_def fd_guard_from_def)

lemma select_signal_then_fail:
  "epoll_selector_select kernel_signal_then_fail selector_3 [] 8 None [] =
     Some (Inl \<lparr>error_code = EBADF\<rparr>, [], [Epoll_wait 3 8 (-1), Epoll_wait 3 8 (-1)])"
proof -
  have "epoll_selector_select kernel_signal_then_fail selector_3 [] 8 None [] =
     Some (Inl \<lparr>error_code = EBADF\<rparr>, [], [] @ replicate (Suc 1) (Epoll_wait 3 8 (-1)))"
    by (subst select_returns [where k = 1])
      (simp_all add: kernel_signal_then_fail_def selector_3_raw_fd select_timeout_ms_def
        interrupted_reply_def deliver_def EBADF_def EINTR_def)
  then show ?thesis by (simp add: numeral_2_eq_2)
qed

theorem select_never_interrupted_witness:
  "epoll_selector_select kernel_signal_then_fail selector_3 [] 8 None [] =
     Some (Inl \<lparr>error_code = EBADF\<rparr>, [], [Epoll_wait 3 8 (-1), Epoll_wait 3 8 (-1)])
   \<and> \<not> error_is_interrupted \<lparr>error_code = EBADF\<rparr>
   \<and> interrupted_reply (kernel_signal_then_fail [Epoll_wait 3 8 (-1)])"
  using select_never_interrupted [of kernel_signal_then_fail selector_3 "[]" 8 None "[]"
      "\<lparr>error_code = EBADF\<rparr>" "[]" "[Epoll_wait 3 8 (-1), Epoll_wait 3 8 (-1)]" 1]
    select_signal_then_fail
  by (simp add: kernel_signal_then_fail_def interrupted_reply_def EINTR_def)

section \<open>The timeout handed to the kernel\<close>

text \<open>
  C2, as the code has it. Every kernel wait call that \<open>select\<close> makes carries the same
  timeout: \<open>-1\<close> when the timeout is absent and, when it is present, the millisecond
  count cast to \<open>int\<close>, that is, its low 32 bits. A count within the range of
  \<open>int\<close> is passed unchanged, so a negative present timeout within that range reaches
  the kernel negative: nothing clamps it.
\<close>

theorem select_timeout_passed_unclamped:
  "(epoll_selector_select K s buf mx timeout tr = Some (res, buf', tr')
      \<longrightarrow> (\<exists>k. tr' = tr @ replicate (Suc k)
             (Epoll_wait (epoll_selector_raw_fd s) mx (select_timeout_ms timeout))))
   \<and> select_timeout_ms None = -1
   \<and> select_timeout_ms (Some t) = scast t
   \<and> (- (2 ^ 31) \<le> sint t \<and> sint t < 2 ^ 31
      \<longrightarrow> sint (select_timeout_ms (Some t)) = sint t)"
proof (intro conjI impI)
  assume "epoll_selector_select K s buf mx timeout tr = Some (res, buf', tr')"
  from select_result [OF this]
  show "\<exists>k. tr' = tr @ replicate (Suc k)
             (Epoll_wait (epoll_selector_raw_fd s) mx (select_timeout_ms timeout))"
    by simp
next
  show "select_timeout_ms None = -1" by (simp add: select_timeout_ms_def)
next
  show "select_timeout_ms (Some t) = scast t" by (simp add: select_timeout_ms_def)
next
  assume "- (2 ^ 31) \<le> sint t \<and> sint t < 2 ^ 31"
  then show "sint (select_timeout_ms (Some t)) = sint t"
    by (simp add: select_timeout_ms_def scast_in_range)
qed

text \<open>On an idle kernel \<open>select\<close> makes one wait call and returns 0.\<close>

lemma select_idle:
  "epoll_selector_select kernel_idle selector_3 buf mx timeout [] =
     Some (Inr 0, buf, [Epoll_wait 3 mx (select_timeout_ms timeout)])"
proof -
  have "epoll_selector_select kernel_idle selector_3 buf mx timeout [] =
     Some (Inr 0, buf, [] @ replicate (Suc 0) (Epoll_wait 3 mx (select_timeout_ms timeout)))"
    by (subst select_returns [where k = 0])
      (simp_all add: kernel_idle_def selector_3_raw_fd interrupted_reply_def deliver_def)
  then show ?thesis by simp
qed

text \<open>
  C2 as stated fails: with the present timeout \<open>-5\<close> ms the kernel wait call receives
  \<open>-5\<close>, not \<open>0\<close>.
\<close>

theorem select_negative_timeout_counterexample:
  "epoll_selector_select kernel_idle selector_3 [] 8 (Some (-5)) [] =
     Some (Inr 0, [], [Epoll_wait 3 8 (-5)])
   \<and> sint (-5 :: i32) < 0"
  using select_idle [of "[]" 8 "Some (-5)"] by (simp add: select_timeout_ms_def)

theorem select_timeout_passed_unclamped_witness:
  "(\<exists>k. [Epoll_wait 3 8 (-5)] =
        [] @ replicate (Suc k) (Epoll_wait 3 8 (select_timeout_ms (Some (-5)))))
   \<and> sint (select_timeout_ms (Some (-5))) = -5
   \<and> select_timeout_ms (Some 250) = 250"
  using select_timeout_passed_unclamped [of kernel_idle selector_3 "[]" 8 "Some (-5)" "[]"
      "Inr 0" "[]" "[Epoll_wait 3 8 (-5)]" "-5"]
    select_timeout_passed_unclamped [of kernel_idle selector_3 "[]" 8 "Some (-5)" "[]"
      "Inr 0" "[]" "[Epoll_wait 3 8 (-5)]" "250"]
    select_idle [of "[]" 8 "Some (-5)"]
  by (simp add: selector_3_raw_fd select_timeout_ms_def)

section \<open>A capacity of zero\<close>

text \<open>
  C3, as the code has it. With a capacity of zero \<open>select\<close> has no early return: it
  makes the kernel wait call with \<open>maxevents = 0\<close> and, when that call is not
  interrupted, returns its outcome: the error when the call fails, the count otherwise.
\<close>

theorem select_zero_capacity_asks_kernel:
  assumes "\<not> interrupted_reply
     (K (tr @ [Epoll_wait (epoll_selector_raw_fd s) 0 (select_timeout_ms timeout)]))"
  shows "epoll_selector_select K s buf 0 timeout tr =
     Some (if sint (ret (K (tr @ [Epoll_wait (epoll_selector_raw_fd s) 0
                  (select_timeout_ms timeout)]))) < 0
           then Inl \<lparr>error_code = err (K (tr @ [Epoll_wait (epoll_selector_raw_fd s) 0
                  (select_timeout_ms timeout)]))\<rparr>
           else Inr (ret (K (tr @ [Epoll_wait (epoll_selector_raw_fd s) 0
                  (select_timeout_ms timeout)]))),
           deliver buf (K (tr @ [Epoll_wait (epoll_selector_raw_fd s) 0
                  (select_timeout_ms timeout)])),
           tr @ [Epoll_wait (epoll_selector_raw_fd s) 0 (select_timeout_ms timeout)])"
  using select_returns [of 0 K tr s 0 timeout buf] assms by simp

text \<open>
  C3 as stated fails: on a kernel that refuses \<open>maxevents = 0\<close>, as Linux does,
  \<open>select\<close> with capacity zero and no timeout returns the error \<open>EINVAL\<close>, not zero.
\<close>

theorem select_zero_capacity_counterexample:
  "epoll_selector_select kernel_needs_room selector_3 [] 0 None [] =
     Some (Inl \<lparr>error_code = EINVAL\<rparr>, [], [Epoll_wait 3 0 (-1)])"
proof -
  have "epoll_selector_select kernel_needs_room selector_3 [] 0 None [] =
     Some (Inl \<lparr>error_code = EINVAL\<rparr>, [], [] @ replicate (Suc 0) (Epoll_wait 3 0 (-1)))"
    by (subst select_returns [where k = 0])
      (simp_all add: kernel_needs_room_def selector_3_raw_fd interrupted_reply_def deliver_def
         select_timeout_ms_def EINVAL_def EINTR_def)
  then show ?thesis by simp
qed

theorem select_zero_capacity_asks_kernel_witness:
  "\<not> interrupted_reply (kernel_idle ([] @ [Epoll_wait 3 0 100]))
   \<and> epoll_selector_select kernel_idle selector_3 [] 0 (Some 100) [] =
       Some (Inr 0, [], [Epoll_wait 3 0 100])"
  using select_zero_capacity_asks_kernel [of kernel_idle "[]" selector_3 "Some 100" "[]"]
  by (simp add: selector_3_raw_fd select_timeout_ms_def kernel_idle_def interrupted_reply_def
      deliver_def)

section \<open>The batch after a poll\<close>

lemma do_poll_result:
  assumes "poll_do_poll K p evs timeout tr = Some (res, evs', tr')"
  shows "\<exists>sres. epoll_selector_select K (poll_sel p) (events_buf evs) (events_raw_capacity evs)
             timeout tr = Some (sres, events_buf evs', tr')
     \<and> events_capacity evs' = events_capacity evs
     \<and> events_buf evs' = deliver (events_buf evs) (K tr')
     \<and> (case sres of
          Inl e \<Rightarrow> res = Inl e \<and> events_len evs' = 0
        | Inr n \<Rightarrow> res = Inr () \<and> n = ret (K tr') \<and> 0 \<le> sint n
            \<and> unat (events_len evs') = nat (sint n)
            \<and> (sint n \<le> sint (events_raw_capacity evs)
                 \<longrightarrow> unat (events_len evs') \<le> unat (events_capacity evs)))"
proof -
  let ?sel = "epoll_selector_select K (poll_sel p) (events_buf evs) (events_raw_capacity evs)
             timeout tr"
  have clear: "events_raw_buf (events_clear evs) = events_buf evs"
    "events_raw_capacity (events_clear evs) = events_raw_capacity evs"
    by (simp_all add: events_raw_buf_def events_clear_def events_raw_capacity_def)
  from assms obtain sres buf' where
    sel: "?sel = Some (sres, buf', tr')"
    and out: "(res, evs') =
      (case sres of
         Inl e \<Rightarrow> (Inl e, (events_clear evs)\<lparr>events_buf := buf'\<rparr>)
       | Inr v \<Rightarrow> (Inr (), events_set_len ((events_clear evs)\<lparr>events_buf := buf'\<rparr>) (scast v)))"
    by (auto simp add: poll_do_poll_def Let_def clear split: option.splits sum.splits)
  from select_result [OF sel]
  have dl: "buf' = deliver (events_buf evs) (K tr')"
    by simp
  from select_result [OF sel]
  have sres: "sres = (if sint (ret (K tr')) < 0 then Inl \<lparr>error_code = err (K tr')\<rparr>
              else Inr (ret (K tr')))"
    by simp
  show ?thesis
  proof (cases sres)
    case (Inl e)
    with out have "res = Inl e" "evs' = (events_clear evs)\<lparr>events_buf := buf'\<rparr>"
      by simp_all
    with sel Inl dl show ?thesis
      by (simp add: events_clear_def)
  next
    case (Inr n)
    with sres have n: "n = ret (K tr')" "0 \<le> sint n"
      by (simp_all split: if_splits)
    from Inr out have r: "res = Inr ()"
      and e: "evs' = events_set_len ((events_clear evs)\<lparr>events_buf := buf'\<rparr>) (scast n)"
      by simp_all
    from e have len: "events_len evs' = scast n" and cap: "events_capacity evs' = events_capacity evs"
      and buf: "events_buf evs' = buf'"
      by (simp_all add: events_set_len_def events_clear_def)
    have l: "unat (events_len evs') = nat (sint n)"
      unfolding len using n(2) by (rule scast_up)
    have "sint n \<le> sint (events_raw_capacity evs)
            \<longrightarrow> unat (events_len evs') \<le> unat (events_capacity evs)"
      unfolding l events_raw_capacity_def by (blast intro: count_le_capacity)
    with sel Inr r n l cap buf dl show ?thesis by simp
  qed
qed

lemma do_poll_of_select_error:
  assumes "epoll_selector_select K (poll_sel p) (events_buf evs) (events_raw_capacity evs)
             timeout tr = Some (Inl e, buf', tr')"
  shows "poll_do_poll K p evs timeout tr =
           Some (Inl e, evs\<lparr>events_buf := buf', events_len := 0\<rparr>, tr')"
  using assms
  by (simp add: poll_do_poll_def Let_def events_clear_def events_raw_buf_def
      events_raw_capacity_def)

lemma do_poll_of_select_count:
  assumes "epoll_selector_select K (poll_sel p) (events_buf evs) (events_raw_capacity evs)
             timeout tr = Some (Inr n, buf', tr')"
  shows "poll_do_poll K p evs timeout tr =
           Some (Inr (), evs\<lparr>events_buf := buf', events_len := scast n\<rparr>, tr')"
  using assms
  by (simp add: poll_do_poll_def Let_def events_clear_def events_raw_buf_def
      events_raw_capacity_def events_set_len_def)

lemma do_poll_returns:
  assumes "\<forall>j<k. interrupted_reply (K (tr @ replicate (Suc j)
              (Epoll_wait (epoll_selector_raw_fd (poll_sel p)) (events_raw_capacity evs)
                 (select_timeout_ms timeout))))"
    and "\<not> interrupted_reply (K (tr @ replicate (Suc k)
              (Epoll_wait (epoll_selector_raw_fd (poll_sel p)) (events_raw_capacity evs)
                 (select_timeout_ms timeout))))"
  shows "\<exists>res evs'. poll_do_poll K p evs timeout tr =
           Some (res, evs', tr @ replicate (Suc k)
              (Epoll_wait (epoll_selector_raw_fd (poll_sel p)) (events_raw_capacity evs)
                 (select_timeout_ms timeout)))"
proof -
  let ?tr' = "tr @ replicate (Suc k)
              (Epoll_wait (epoll_selector_raw_fd (poll_sel p)) (events_raw_capacity evs)
                 (select_timeout_ms timeout))"
  from select_returns [OF assms, of "events_buf evs"]
  obtain sres buf' where
    sel: "epoll_selector_select K (poll_sel p) (events_buf evs) (events_raw_capacity evs)
             timeout tr = Some (sres, buf', ?tr')"
    by blast
  show ?thesis
  proof (cases sres)
    case (Inl e)
    with sel do_poll_of_select_error [of K p evs timeout tr e buf' ?tr']
    show ?thesis by blast
  next
    case (Inr n)
    with sel do_poll_of_select_count [of K p evs timeout tr n buf' ?tr']
    show ?thesis by blast
  qed
qed

text \<open>
  C4. Whatever the batch held before, \<open>do_poll\<close> returns exactly when the underlying
  \<open>select\<close> (run on the batch's buffer and capacity) returns, and in particular as soon
  as a kernel wait call is not interrupted. If \<open>select\<close> fails, \<open>do_poll\<close> returns that
  error and the batch length is zero. If \<open>select\<close> succeeds with count \<open>n\<close>, then
  \<open>0 \<le> n\<close>, \<open>do_poll\<close> succeeds and the batch length is \<open>n\<close>; and \<open>n\<close> is at most
  the capacity whenever the kernel delivered no more events than the \<open>maxevents\<close> it was
  given, which is what \<open>epoll_wait\<close> promises. The capacity never changes. Conversely,
  whatever \<open>do_poll\<close> returns comes from such a return of \<open>select\<close>.
\<close>

theorem do_poll_batch_length:
  "(poll_do_poll K p evs timeout tr = Some (res, evs', tr') \<longrightarrow>
     (\<exists>sres. epoll_selector_select K (poll_sel p) (events_buf evs) (events_raw_capacity evs)
             timeout tr = Some (sres, events_buf evs', tr')
       \<and> events_capacity evs' = events_capacity evs
       \<and> (case sres of
            Inl e \<Rightarrow> res = Inl e \<and> events_len evs' = 0
          | Inr n \<Rightarrow> res = Inr () \<and> n = ret (K tr') \<and> 0 \<le> sint n
              \<and> unat (events_len evs') = nat (sint n)
              \<and> (sint n \<le> sint (events_raw_capacity evs)
                   \<longrightarrow> unat (events_len evs') \<le> unat (events_capacity evs)))))
   \<and> (epoll_selector_select K (poll_sel p) (events_buf evs) (events_raw_capacity evs)
         timeout tr = Some (Inl e, buf1, tr1) \<longrightarrow>
       poll_do_poll K p evs timeout tr =
         Some (Inl e, evs\<lparr>events_buf := buf1, events_len := 0\<rparr>, tr1))
   \<and> (epoll_selector_select K (poll_sel p) (events_buf evs) (events_raw_capacity evs)
         timeout tr = Some (Inr n, buf2, tr2) \<longrightarrow>
       poll_do_poll K p evs timeout tr =
         Some (Inr (), evs\<lparr>events_buf := buf2, events_len := scast n\<rparr>, tr2)
       \<and> 0 \<le> sint n \<and> unat (scast n :: u64) = nat (sint n))
   \<and> ((\<forall>j<k. interrupted_reply (K (tr @ replicate (Suc j)
              (Epoll_wait (epoll_selector_raw_fd (poll_sel p)) (events_raw_capacity evs)
                 (select_timeout_ms timeout)))))
        \<and> \<not> interrupted_reply (K (tr @ replicate (Suc k)
              (Epoll_wait (epoll_selector_raw_fd (poll_sel p)) (events_raw_capacity evs)
                 (select_timeout_ms timeout)))) \<longrightarrow>
       (\<exists>r v. poll_do_poll K p evs timeout tr =
           Some (r, v, tr @ replicate (Suc k)
              (Epoll_wait (epoll_selector_raw_fd (poll_sel p)) (events_raw_capacity evs)
                 (select_timeout_ms timeout)))))"
proof (intro conjI impI)
  assume "poll_do_poll K p evs timeout tr = Some (res, evs', tr')"
  from do_poll_result [OF this]
  show "\<exists>sres. epoll_selector_select K (poll_sel p) (events_buf evs) (events_raw_capacity evs)
             timeout tr = Some (sres, events_buf evs', tr')
       \<and> events_capacity evs' = events_capacity evs
       \<and> (case sres of
            Inl e \<Rightarrow> res = Inl e \<and> events_len evs' = 0
          | Inr n \<Rightarrow> res = Inr () \<and> n = ret (K tr') \<and> 0 \<le> sint n
              \<and> unat (events_len evs') = nat (sint n)
              \<and> (sint n \<le> sint (events_raw_capacity evs)
                   \<longrightarrow> unat (events_len evs') \<le> unat (events_capacity evs)))"
    by blast
next
  assume "epoll_selector_select K (poll_sel p) (events_buf evs) (events_raw_capacity evs)
         timeout tr = Some (Inl e, buf1, tr1)"
  then show "poll_do_poll K p evs timeout tr =
         Some (Inl e, evs\<lparr>events_buf := buf1, events_len := 0\<rparr>, tr1)"
    by (rule do_poll_of_select_error)
next
  assume a: "epoll_selector_select K (poll_sel p) (events_buf evs) (events_raw_capacity evs)
         timeout tr = Some (Inr n, buf2, tr2)"
  then show "poll_do_poll K p evs timeout tr =
         Some (Inr (), evs\<lparr>events_buf := buf2, events_len := scast n\<rparr>, tr2)"
    by (rule do_poll_of_select_count)
  from select_result [OF a]
  have "Inr n = (if sint (ret (K tr2)) < 0 then Inl \<lparr>error_code = err (K tr2)\<rparr>
              else Inr (ret (K tr2)))"
    by simp
  then show nn: "0 \<le> sint n"
    by (simp split: if_splits)
  then show "unat (scast n :: u64) = nat (sint n)"
    by (rule scast_up)
next
  assume "(\<forall>j<k. interrupted_reply (K (tr @ replicate (Suc j)
              (Epoll_wait (epoll_selector_raw_fd (poll_sel p)) (events_raw_capacity evs)
                 (select_timeout_ms timeout)))))
        \<and> \<not> interrupted_reply (K (tr @ replicate (Suc k)
              (Epoll_wait (epoll_selector_raw_fd (poll_sel p)) (events_raw_capacity evs)
                 (select_timeout_ms timeout))))"
  then show "\<exists>r v. poll_do_poll K p evs timeout tr =
           Some (r, v, tr @ replicate (Suc k)
              (Epoll_wait (epoll_selector_raw_fd (poll_sel p)) (events_raw_capacity evs)
                 (select_timeout_ms timeout)))"
    using do_poll_returns [of k K tr p evs timeout] by blast
qed

text \<open>
  A batch of capacity 4 whose previous length was 3, polled on a kernel that is
  interrupted twice and then delivers one event.
\<close>

lemma do_poll_signal_then_event:
  "poll_do_poll kernel_signal_then_event \<lparr>poll_sel = selector_3\<rparr>
      ((events_new 4)\<lparr>events_len := 3\<rparr>) (Some 100) [] =
     Some (Inr (),
           \<lparr>events_buf = [\<lparr>events = EPOLLIN, data_u64 = 7\<rparr>, \<lparr>events = 0, data_u64 = 0\<rparr>,
               \<lparr>events = 0, data_u64 = 0\<rparr>, \<lparr>events = 0, data_u64 = 0\<rparr>],
            events_capacity = 4, events_len = 1\<rparr>,
           [Epoll_wait 3 4 100, Epoll_wait 3 4 100, Epoll_wait 3 4 100])"
proof -
  let ?z = "\<lparr>events = 0, data_u64 = 0\<rparr>"
  have sel: "epoll_selector_select kernel_signal_then_event selector_3 [?z, ?z, ?z, ?z] 4
       (Some 100) [] =
     Some (Inr 1, [\<lparr>events = EPOLLIN, data_u64 = 7\<rparr>, ?z, ?z, ?z],
           [] @ replicate (Suc 2) (Epoll_wait 3 4 100))"
    by (subst select_returns [where k = 2])
      (simp_all add: kernel_signal_then_event_def selector_3_raw_fd select_timeout_ms_def
        interrupted_reply_def deliver_def store_events_def EINTR_def)
  have r: "replicate (Suc 2) (Epoll_wait 3 4 100) =
     [Epoll_wait 3 4 100, Epoll_wait 3 4 100, Epoll_wait 3 4 100]"
    by (simp add: numeral_2_eq_2)
  have b: "replicate 4 ?z = [?z, ?z, ?z, ?z]"
    by (simp add: eval_nat_numeral)
  show ?thesis
    using sel unfolding r
    by (simp add: poll_do_poll_def events_new_def events_clear_def events_raw_buf_def
        events_raw_capacity_def events_set_len_def b)
qed

text \<open>
  A batch of capacity 2 whose previous length was 2, polled on a kernel that is
  interrupted once and then fails with \<open>EBADF\<close>.
\<close>

lemma select_signal_then_fail_batch:
  "epoll_selector_select kernel_signal_then_fail selector_3
      [\<lparr>events = 0, data_u64 = 0\<rparr>, \<lparr>events = 0, data_u64 = 0\<rparr>] 2 None [] =
     Some (Inl \<lparr>error_code = EBADF\<rparr>,
       [\<lparr>events = 0, data_u64 = 0\<rparr>, \<lparr>events = 0, data_u64 = 0\<rparr>],
       [Epoll_wait 3 2 (-1), Epoll_wait 3 2 (-1)])"
proof -
  have "epoll_selector_select kernel_signal_then_fail selector_3
      [\<lparr>events = 0, data_u64 = 0\<rparr>, \<lparr>events = 0, data_u64 = 0\<rparr>] 2 None [] =
     Some (Inl \<lparr>error_code = EBADF\<rparr>,
       [\<lparr>events = 0, data_u64 = 0\<rparr>, \<lparr>events = 0, data_u64 = 0\<rparr>],
       [] @ replicate (Suc 1) (Epoll_wait 3 2 (-1)))"
    by (subst select_returns [where k = 1])
      (simp_all add: kernel_signal_then_fail_def selector_3_raw_fd select_timeout_ms_def
        interrupted_reply_def deliver_def EBADF_def EINTR_def)
  then show ?thesis by (simp add: numeral_2_eq_2)
qed

theorem do_poll_batch_length_witness:
  "poll_do_poll kernel_signal_then_event \<lparr>poll_sel = selector_3\<rparr>
      ((events_new 4)\<lparr>events_len := 3\<rparr>) (Some 100) [] =
     Some (Inr (),
           \<lparr>events_buf = [\<lparr>events = EPOLLIN, data_u64 = 7\<rparr>, \<lparr>events = 0, data_u64 = 0\<rparr>,
               \<lparr>events = 0, data_u64 = 0\<rparr>, \<lparr>events = 0, data_u64 = 0\<rparr>],
            events_capacity = 4, events_len = 1\<rparr>,
           [Epoll_wait 3 4 100, Epoll_wait 3 4 100, Epoll_wait 3 4 100])
   \<and> sint (ret (kernel_signal_then_event
         [Epoll_wait 3 4 100, Epoll_wait 3 4 100, Epoll_wait 3 4 100]))
       \<le> sint (events_raw_capacity ((events_new 4)\<lparr>events_len := 3\<rparr>))
   \<and> unat (1 :: u64) \<le> unat (4 :: u64)
   \<and> poll_do_poll kernel_signal_then_fail \<lparr>poll_sel = selector_3\<rparr>
        \<lparr>events_buf = [\<lparr>events = 0, data_u64 = 0\<rparr>, \<lparr>events = 0, data_u64 = 0\<rparr>],
         events_capacity = 2, events_len = 2\<rparr> None [] =
       Some (Inl \<lparr>error_code = EBADF\<rparr>,
         \<lparr>events_buf = [\<lparr>events = 0, data_u64 = 0\<rparr>, \<lparr>events = 0, data_u64 = 0\<rparr>],
          events_capacity = 2, events_len = 0\<rparr>,
         [Epoll_wait 3 2 (-1), Epoll_wait 3 2 (-1)])"
proof -
  let ?z = "\<lparr>events = 0, data_u64 = 0\<rparr>"
  let ?evs = "\<lparr>events_buf = [?z, ?z], events_capacity = 2, events_len = 2\<rparr>"
  let ?p = "\<lparr>poll_sel = selector_3\<rparr>"
  have ok: "sint (ret (kernel_signal_then_event
         [Epoll_wait 3 4 100, Epoll_wait 3 4 100, Epoll_wait 3 4 100]))
       \<le> sint (events_raw_capacity ((events_new 4)\<lparr>events_len := 3\<rparr>))"
    by (simp add: kernel_signal_then_event_def events_raw_capacity_def events_new_def)
  have pre: "epoll_selector_select kernel_signal_then_fail (poll_sel ?p) (events_buf ?evs)
       (events_raw_capacity ?evs) None [] =
     Some (Inl \<lparr>error_code = EBADF\<rparr>, [?z, ?z], [Epoll_wait 3 2 (-1), Epoll_wait 3 2 (-1)])"
    using select_signal_then_fail_batch by (simp add: events_raw_capacity_def)
  have "poll_do_poll kernel_signal_then_fail ?p ?evs None [] =
       Some (Inl \<lparr>error_code = EBADF\<rparr>, ?evs\<lparr>events_buf := [?z, ?z], events_len := 0\<rparr>,
         [Epoll_wait 3 2 (-1), Epoll_wait 3 2 (-1)])"
    using do_poll_batch_length [where K = kernel_signal_then_fail and p = ?p and evs = ?evs
        and timeout = None and tr = "[]" and e = "\<lparr>error_code = EBADF\<rparr>"
        and ?buf1.0 = "[?z, ?z]" and ?tr1.0 = "[Epoll_wait 3 2 (-1), Epoll_wait 3 2 (-1)]",
        THEN conjunct2, THEN conjunct1] pre
    by (rule mp)
  then have fail: "poll_do_poll kernel_signal_then_fail ?p ?evs None [] =
       Some (Inl \<lparr>error_code = EBADF\<rparr>,
         \<lparr>events_buf = [?z, ?z], events_capacity = 2, events_len = 0\<rparr>,
         [Epoll_wait 3 2 (-1), Epoll_wait 3 2 (-1)])"
    by simp
  from do_poll_signal_then_event ok fail
  show ?thesis by simp
qed

section \<open>Registration: the readiness mask and the token\<close>

lemma interest_to_epoll_union:
  "interest_to_epoll i =
     EPOLLET OR (if interest_is_readable i then EPOLLIN OR EPOLLRDHUP else 0)
       OR (if interest_is_writable i then EPOLLOUT else 0)
       OR (if interest_is_priority i then EPOLLPRI else 0)"
  by (simp add: interest_to_epoll_def Let_def ac_simps)

lemma interest_to_epoll_bits:
  "interest_to_epoll i AND EPOLLET \<noteq> 0"
  "(interest_to_epoll i AND EPOLLIN \<noteq> 0) = interest_is_readable i"
  "(interest_to_epoll i AND EPOLLRDHUP \<noteq> 0) = interest_is_readable i"
  "(interest_to_epoll i AND EPOLLOUT \<noteq> 0) = interest_is_writable i"
  "(interest_to_epoll i AND EPOLLPRI \<noteq> 0) = interest_is_priority i"
  "interest_to_epoll i AND NOT (EPOLLET OR EPOLLIN OR EPOLLRDHUP OR EPOLLOUT OR EPOLLPRI) = 0"
  by (simp_all add: interest_to_epoll_def Let_def EPOLLET_def EPOLLIN_def EPOLLRDHUP_def
      EPOLLOUT_def EPOLLPRI_def)

text \<open>
  C5. For every interest, token and descriptor, \<open>register_fd\<close> makes exactly one
  kernel call, \<open>epoll_ctl\<close> with \<open>EPOLL_CTL_ADD\<close> on the descriptor, and fails with the
  kernel's error iff that call does; \<open>reregister_fd\<close> does the same with
  \<open>EPOLL_CTL_MOD\<close>. The event handed over has the token's value in its 64-bit user-data
  field and, as flag word, the union of \<open>EPOLLET\<close>, of \<open>EPOLLIN\<close> and \<open>EPOLLRDHUP\<close> if
  the interest is readable, of \<open>EPOLLOUT\<close> if it is writable and of \<open>EPOLLPRI\<close> if it
  is priority. So the edge-triggered flag is always set, each of the other four is set
  iff its interest bit is, and no other flag is set.
\<close>

theorem register_fd_mask_and_token:
  "epoll_selector_register_fd K s fd tok i tr =
     (if sint (ret (K (tr @ [Epoll_ctl (epoll_selector_raw_fd s) EPOLL_CTL_ADD fd
             (Some \<lparr>events = interest_to_epoll i, data_u64 = token_value tok\<rparr>)]))) < 0
      then Inl \<lparr>error_code = err (K (tr @ [Epoll_ctl (epoll_selector_raw_fd s) EPOLL_CTL_ADD fd
             (Some \<lparr>events = interest_to_epoll i, data_u64 = token_value tok\<rparr>)]))\<rparr>
      else Inr (),
      tr @ [Epoll_ctl (epoll_selector_raw_fd s) EPOLL_CTL_ADD fd
             (Some \<lparr>events = interest_to_epoll i, data_u64 = token_value tok\<rparr>)])
   \<and> epoll_selector_reregister_fd K s fd tok i tr =
     (if sint (ret (K (tr @ [Epoll_ctl (epoll_selector_raw_fd s) EPOLL_CTL_MOD fd
             (Some \<lparr>events = interest_to_epoll i, data_u64 = token_value tok\<rparr>)]))) < 0
      then Inl \<lparr>error_code = err (K (tr @ [Epoll_ctl (epoll_selector_raw_fd s) EPOLL_CTL_MOD fd
             (Some \<lparr>events = interest_to_epoll i, data_u64 = token_value tok\<rparr>)]))\<rparr>
      else Inr (),
      tr @ [Epoll_ctl (epoll_selector_raw_fd s) EPOLL_CTL_MOD fd
             (Some \<lparr>events = interest_to_epoll i, data_u64 = token_value tok\<rparr>)])
   \<and> interest_to_epoll i =
       EPOLLET OR (if interest_is_readable i then EPOLLIN OR EPOLLRDHUP else 0)
         OR (if interest_is_writable i then EPOLLOUT else 0)
         OR (if interest_is_priority i then EPOLLPRI else 0)
   \<and> interest_to_epoll i AND EPOLLET \<noteq> 0
   \<and> (interest_to_epoll i AND EPOLLIN \<noteq> 0) = interest_is_readable i
   \<and> (interest_to_epoll i AND EPOLLRDHUP \<noteq> 0) = interest_is_readable i
   \<and> (interest_to_epoll i AND EPOLLOUT \<noteq> 0) = interest_is_writable i
   \<and> (interest_to_epoll i AND EPOLLPRI \<noteq> 0) = interest_is_priority i
   \<and> interest_to_epoll i AND NOT (EPOLLET OR EPOLLIN OR EPOLLRDHUP OR EPOLLOUT OR EPOLLPRI) = 0"
proof -
  have reg: "epoll_selector_register_fd K s fd tok i tr =
     (if sint (ret (K (tr @ [Epoll_ctl (epoll_selector_raw_fd s) EPOLL_CTL_ADD fd
             (Some \<lparr>events = interest_to_epoll i, data_u64 = token_value tok\<rparr>)]))) < 0
      then Inl \<lparr>error_code = err (K (tr @ [Epoll_ctl (epoll_selector_raw_fd s) EPOLL_CTL_ADD fd
             (Some \<lparr>events = interest_to_epoll i, data_u64 = token_value tok\<rparr>)]))\<rparr>
      else Inr (),
      tr @ [Epoll_ctl (epoll_selector_raw_fd s) EPOLL_CTL_ADD fd
             (Some \<lparr>events = interest_to_epoll i, data_u64 = token_value tok\<rparr>)])"
    by (simp add: epoll_selector_register_fd_def Let_def do_syscall_def)
  have rereg: "epoll_selector_reregister_fd K s fd tok i tr =
     (if sint (ret (K (tr @ [Epoll_ctl (epoll_selector_raw_fd s) EPOLL_CTL_MOD fd
             (Some \<lparr>events = interest_to_epoll i, data_u64 = token_value tok\<rparr>)]))) < 0
      then Inl \<lparr>error_code = err (K (tr @ [Epoll_ctl (epoll_selector_raw_fd s) EPOLL_CTL_MOD fd
             (Some \<lparr>events = interest_to_epoll i, data_u64 = token_value tok\<rparr>)]))\<rparr>
      else Inr (),
      tr @ [Epoll_ctl (epoll_selector_raw_fd s) EPOLL_CTL_MOD fd
             (Some \<lparr>events = interest_to_epoll i, data_u64 = token_value tok\<rparr>)])"
    by (simp add: epoll_selector_reregister_fd_def Let_def do_syscall_def)
  from reg rereg interest_to_epoll_union [of i] interest_to_epoll_bits [of i]
  show ?thesis by blast
qed

section \<open>The descriptor handle\<close>

text \<open>
  C7 as stated fails: a handle constructed from \<open>-5\<close>, or reset to \<open>-5\<close>, is empty,
  but its raw accessor returns \<open>-5\<close>, not the sentinel \<open>-1\<close>.
\<close>

theorem fd_guard_negative_counterexample:
  "fd_guard_raw_fd (fd_guard_from (-5)) = -5
   \<and> fd_guard_raw_fd (fd_guard_from (-5)) \<noteq> -1
   \<and> \<not> fd_guard_bool (fd_guard_from (-5))
   \<and> fd_guard_raw_fd (fst (fd_guard_reset kernel_idle fd_guard_default (-5) [])) \<noteq> -1
   \<and> sint (-5 :: i32) < 0"
  by (simp add: fd_guard_raw_fd_def fd_guard_from_def fd_guard_bool_def fd_guard_reset_def
      fd_guard_default_def)

text \<open>
  C7, as the code has it. A handle is non-empty exactly when its stored value is
  \<open>\<ge> 0\<close>. The default constructor, \<open>release\<close> and a move leave the sentinel \<open>-1\<close>
  behind. Constructing from \<open>n\<close> and resetting to \<open>n\<close> store \<open>n\<close> as it is: for a
  negative \<open>n\<close> the handle is empty, its destructor closes nothing, and its raw accessor
  returns \<open>n\<close>.
\<close>

theorem fd_guard_empty_iff_negative:
  "(fd_guard_bool g \<longleftrightarrow> 0 \<le> sint (fd_guard_raw_fd g))
   \<and> fd_guard_raw_fd fd_guard_default = -1
   \<and> fd_guard_release g = (fd_guard_raw_fd g, fd_guard_default)
   \<and> fd_guard_move_construct g = (g, fd_guard_default)
   \<and> fst (snd (fd_guard_move_assign K False g h tr)) = fd_guard_default
   \<and> fd_guard_raw_fd (fd_guard_from n) = n
   \<and> fd_guard_raw_fd (fst (fd_guard_reset K g n tr)) = n
   \<and> (sint n < 0 \<longrightarrow>
        \<not> fd_guard_bool (fd_guard_from n)
        \<and> \<not> fd_guard_bool (fst (fd_guard_reset K g n tr))
        \<and> fd_guard_destroy K (fd_guard_from n) tr = tr)"
  by (simp add: fd_guard_raw_fd_def fd_guard_from_def fd_guard_bool_def fd_guard_reset_def
      fd_guard_default_def fd_guard_release_def fd_guard_move_construct_def
      fd_guard_move_assign_def fd_guard_destroy_def Let_def)

theorem fd_guard_empty_iff_negative_witness:
  "sint (-5 :: i32) < 0
   \<and> \<not> fd_guard_bool (fd_guard_from (-5))
   \<and> fd_guard_raw_fd (fd_guard_from (-5)) = -5
   \<and> fd_guard_destroy kernel_idle (fd_guard_from (-5)) [] = []
   \<and> fd_guard_bool (fd_guard_from 3)"
  using fd_guard_empty_iff_negative [of "fd_guard_from 3" kernel_idle fd_guard_default "[]" "-5"]
  by (simp add: fd_guard_raw_fd_def fd_guard_from_def)

section \<open>Cloning a registry\<close>

text \<open>
  C8. If \<open>try_clone\<close> succeeds, the registry it returns holds the pointer the original
  holds: it is the same registry, on the same selector object. The duplicate descriptor
  that \<open>dup\<close> returned is closed before \<open>try_clone\<close> returns, and nothing else is done.
\<close>

theorem try_clone_points_at_original:
  assumes "registry_try_clone K mem r tr = Some (Inr r', tr')"
  shows "r' = r
    \<and> (\<exists>s. mem (registry_sel r) = Some s
          \<and> 0 \<le> sint (ret (K (tr @ [Dup (epoll_selector_raw_fd s)])))
          \<and> tr' = tr @ [Dup (epoll_selector_raw_fd s),
                         Close (ret (K (tr @ [Dup (epoll_selector_raw_fd s)])))])"
  using assms
  by (auto simp add: registry_try_clone_def epoll_selector_try_clone_def Let_def do_syscall_def
      epoll_selector_destroy_def fd_guard_destroy_def fd_guard_from_def
      split: option.splits if_splits)

theorem try_clone_points_at_original_witness:
  "registry_try_clone kernel_dup_7 [0 \<mapsto> selector_3] \<lparr>registry_sel = 0\<rparr> [] =
     Some (Inr \<lparr>registry_sel = 0\<rparr>, [Dup 3, Close 7])
   \<and> [0 \<mapsto> selector_3] (registry_sel \<lparr>registry_sel = 0\<rparr>) = Some selector_3"
proof -
  have run: "registry_try_clone kernel_dup_7 [0 \<mapsto> selector_3] \<lparr>registry_sel = 0\<rparr> [] =
     Some (Inr \<lparr>registry_sel = 0\<rparr>, [Dup 3, Close 7])"
    by (simp add: registry_try_clone_def epoll_selector_try_clone_def Let_def do_syscall_def
      epoll_selector_destroy_def fd_guard_destroy_def fd_guard_from_def kernel_dup_7_def
      selector_3_raw_fd)
  from try_clone_points_at_original [OF run] run show ?thesis by simp
qed

section \<open>The source concept and the wrappers\<close>

text \<open>
  C1 as stated fails: the waker exposes none of the three operations the concept
  requires.
\<close>

theorem waker_source_counterexample:
  "registration_members Waker = [] \<and> \<not> source Waker"
  by (simp add: source_def)

text \<open>
  A waker that \<open>create\<close> returns has been registered by \<open>create\<close> itself: one
  \<open>eventfd\<close> call, then one \<open>epoll_ctl\<close> adding the new descriptor with the caller's
  token and the mask of interest READABLE.
\<close>

lemma waker_create_success:
  assumes mem: "mem (registry_sel reg) = Some s"
    and run: "waker_create K mem reg tok tr = Some (Inr wk, tr')"
  shows "eventfd_waker_raw_fd (waker_inner wk) =
           ret (K (tr @ [Eventfd 0 (EFD_CLOEXEC OR EFD_NONBLOCK)]))
     \<and> tr' = tr @ [Eventfd 0 (EFD_CLOEXEC OR EFD_NONBLOCK),
          Epoll_ctl (epoll_selector_raw_fd s) EPOLL_CTL_ADD
            (ret (K (tr @ [Eventfd 0 (EFD_CLOEXEC OR EFD_NONBLOCK)])))
            (Some \<lparr>events = interest_to_epoll interest_readable, data_u64 = token_value tok\<rparr>)]"
  using run mem
  by (auto simp add: waker_create_def eventfd_waker_create_def registry_register_fd_def
      epoll_selector_register_fd_def Let_def do_syscall_def eventfd_waker_raw_fd_def
      fd_guard_raw_fd_def fd_guard_from_def
      split: if_splits)

text \<open>
  C1, as the code has it. The raw fd, the UDP socket and the local-family listener
  satisfy the concept \<open>source\<close>, and each of their three operations, given a registry
  that points at a selector, forwards to that selector's \<open>register_fd\<close>,
  \<open>reregister_fd\<close> or \<open>deregister_fd\<close> with the descriptor the wrapper holds. The
  waker is not a source; \<open>waker::create\<close> registers the waker's descriptor itself, with
  interest READABLE.
\<close>

theorem tio_wrappers_are_sources:
  assumes "mem (registry_sel reg) = Some s"
  shows "source Raw_fd \<and> source Udp_socket \<and> source Unix_listener
   \<and> raw_fd_tio_register K mem w reg tok i tr =
       Some (epoll_selector_register_fd K s (raw_fd_fd w) tok i tr)
   \<and> raw_fd_tio_reregister K mem w reg tok i tr =
       Some (epoll_selector_reregister_fd K s (raw_fd_fd w) tok i tr)
   \<and> raw_fd_tio_deregister K mem w reg tr =
       Some (epoll_selector_deregister_fd K s (raw_fd_fd w) tr)
   \<and> udp_socket_tio_register K mem u reg tok i tr =
       Some (epoll_selector_register_fd K s (fd_guard_raw_fd (udp_socket_fd u)) tok i tr)
   \<and> udp_socket_tio_reregister K mem u reg tok i tr =
       Some (epoll_selector_reregister_fd K s (fd_guard_raw_fd (udp_socket_fd u)) tok i tr)
   \<and> udp_socket_tio_deregister K mem u reg tr =
       Some (epoll_selector_deregister_fd K s (fd_guard_raw_fd (udp_socket_fd u)) tr)
   \<and> unix_listener_tio_register K mem l reg tok i tr =
       Some (epoll_selector_register_fd K s (fd_guard_raw_fd (unix_listener_fd l)) tok i tr)
   \<and> unix_listener_tio_reregister K mem l reg tok i tr =
       Some (epoll_selector_reregister_fd K s (fd_guard_raw_fd (unix_listener_fd l)) tok i tr)
   \<and> unix_listener_tio_deregister K mem l reg tr =
       Some (epoll_selector_deregister_fd K s (fd_guard_raw_fd (unix_listener_fd l)) tr)
   \<and> \<not> source Waker
   \<and> (waker_create K mem reg tok tr = Some (Inr wk, tr') \<longrightarrow>
        eventfd_waker_raw_fd (waker_inner wk) =
           ret (K (tr @ [Eventfd 0 (EFD_CLOEXEC OR EFD_NONBLOCK)]))
        \<and> tr' = tr @ [Eventfd 0 (EFD_CLOEXEC OR EFD_NONBLOCK),
            Epoll_ctl (epoll_selector_raw_fd s) EPOLL_CTL_ADD
              (ret (K (tr @ [Eventfd 0 (EFD_CLOEXEC OR EFD_NONBLOCK)])))
              (Some \<lparr>events = interest_to_epoll interest_readable,
                     data_u64 = token_value tok\<rparr>)])"
proof -
  have src: "source Raw_fd" "source Udp_socket" "source Unix_listener" "\<not> source Waker"
    by (simp_all add: source_def)
  have fwd:
    "raw_fd_tio_register K mem w reg tok i tr =
       Some (epoll_selector_register_fd K s (raw_fd_fd w) tok i tr)"
    "raw_fd_tio_reregister K mem w reg tok i tr =
       Some (epoll_selector_reregister_fd K s (raw_fd_fd w) tok i tr)"
    "raw_fd_tio_deregister K mem w reg tr =
       Some (epoll_selector_deregister_fd K s (raw_fd_fd w) tr)"
    "udp_socket_tio_register K mem u reg tok i tr =
       Some (epoll_selector_register_fd K s (fd_guard_raw_fd (udp_socket_fd u)) tok i tr)"
    "udp_socket_tio_reregister K mem u reg tok i tr =
       Some (epoll_selector_reregister_fd K s (fd_guard_raw_fd (udp_socket_fd u)) tok i tr)"
    "udp_socket_tio_deregister K mem u reg tr =
       Some (epoll_selector_deregister_fd K s (fd_guard_raw_fd (udp_socket_fd u)) tr)"
    "unix_listener_tio_register K mem l reg tok i tr =
       Some (epoll_selector_register_fd K s (fd_guard_raw_fd (unix_listener_fd l)) tok i tr)"
    "unix_listener_tio_reregister K mem l reg tok i tr =
       Some (epoll_selector_reregister_fd K s (fd_guard_raw_fd (unix_listener_fd l)) tok i tr)"
    "unix_listener_tio_deregister K mem l reg tr =
       Some (epoll_selector_deregister_fd K s (fd_guard_raw_fd (unix_listener_fd l)) tr)"
    using assms
    by (simp_all add: raw_fd_tio_register_def raw_fd_tio_reregister_def raw_fd_tio_deregister_def
        udp_socket_tio_register_def udp_socket_tio_reregister_def udp_socket_tio_deregister_def
        unix_listener_tio_register_def unix_listener_tio_reregister_def
        unix_listener_tio_deregister_def
        registry_register_fd_def registry_reregister_fd_def registry_deregister_fd_def)
  from src fwd assms
    waker_create_success [where mem = mem and reg = reg and s = s and K = K and tok = tok
      and tr = tr and wk = wk and tr' = tr']
  show ?thesis by blast
qed

lemma waker_create_dup_7:
  "waker_create kernel_dup_7 [0 \<mapsto> selector_3] \<lparr>registry_sel = 0\<rparr> \<lparr>token_value = 0xFFFF\<rparr> [] =
     Some (Inr \<lparr>waker_inner = \<lparr>eventfd_waker_fd = \<lparr>fd_guard_fd = 7\<rparr>\<rparr>\<rparr>,
           [Eventfd 0 0x80800,
            Epoll_ctl 3 EPOLL_CTL_ADD 7 (Some \<lparr>events = 0x80002001, data_u64 = 0xFFFF\<rparr>)])"
  by (simp add: waker_create_def eventfd_waker_create_def registry_register_fd_def
      epoll_selector_register_fd_def Let_def do_syscall_def eventfd_waker_raw_fd_def
      fd_guard_raw_fd_def fd_guard_from_def kernel_dup_7_def selector_3_raw_fd
      EFD_CLOEXEC_def EFD_NONBLOCK_def interest_to_epoll_def interest_readable_def
      interest_is_readable_def interest_is_writable_def interest_is_priority_def
      k_readable_def k_writable_def k_priority_def
      EPOLLET_def EPOLLIN_def EPOLLRDHUP_def EPOLLOUT_def EPOLLPRI_def)

theorem tio_wrappers_are_sources_witness:
  "[0 \<mapsto> selector_3] (registry_sel \<lparr>registry_sel = 0\<rparr>) = Some selector_3
   \<and> raw_fd_tio_register kernel_idle [0 \<mapsto> selector_3] \<lparr>raw_fd_fd = 5\<rparr> \<lparr>registry_sel = 0\<rparr>
       \<lparr>token_value = 1\<rparr> interest_writable [] =
       Some (Inr (), [Epoll_ctl 3 EPOLL_CTL_ADD 5 (Some \<lparr>events = 0x80000004, data_u64 = 1\<rparr>)])
   \<and> waker_create kernel_dup_7 [0 \<mapsto> selector_3] \<lparr>registry_sel = 0\<rparr> \<lparr>token_value = 0xFFFF\<rparr> [] =
     Some (Inr \<lparr>waker_inner = \<lparr>eventfd_waker_fd = \<lparr>fd_guard_fd = 7\<rparr>\<rparr>\<rparr>,
           [Eventfd 0 0x80800,
            Epoll_ctl 3 EPOLL_CTL_ADD 7 (Some \<lparr>events = 0x80002001, data_u64 = 0xFFFF\<rparr>)])"
proof -
  have m: "[0 \<mapsto> selector_3] (registry_sel \<lparr>registry_sel = 0\<rparr>) = Some selector_3"
    by simp
  have e: "epoll_selector_register_fd kernel_idle selector_3 5 \<lparr>token_value = 1\<rparr>
             interest_writable [] =
       (Inr (), [Epoll_ctl 3 EPOLL_CTL_ADD 5 (Some \<lparr>events = 0x80000004, data_u64 = 1\<rparr>)])"
    by (simp add: epoll_selector_register_fd_def Let_def do_syscall_def kernel_idle_def
        selector_3_raw_fd interest_to_epoll_def interest_writable_def
        interest_is_readable_def interest_is_writable_def interest_is_priority_def
        k_readable_def k_writable_def k_priority_def
        EPOLLET_def EPOLLIN_def EPOLLRDHUP_def EPOLLOUT_def EPOLLPRI_def)
  from tio_wrappers_are_sources [where mem = "[0 \<mapsto> selector_3]"
      and reg = "\<lparr>registry_sel = 0\<rparr>" and s = selector_3 and K = kernel_idle
      and w = "\<lparr>raw_fd_fd = 5\<rparr>" and tok = "\<lparr>token_value = 1\<rparr>" and i = interest_writable
      and tr = "[]"] e m waker_create_dup_7
  show ?thesis by simp
qed

text \<open>
  The other wrappers. The pipe endpoints, the TCP listener and stream and the
  local-family datagram socket name their three operations \<open>mio_...\<close>, so they do
  not satisfy the concept, although their headers assert \<open>static_assert(source<...>)\<close>.
  And the registry's \<open>register_source\<close>, \<open>reregister_source\<close> and
  \<open>deregister_source\<close> call the \<open>mio_...\<close> members under the constraint
  \<open>source<s_t>\<close>, so for no wrapper is such a call well-formed.
\<close>

lemma mio_members_miss_concept:
  "\<not> source Pipe_sender \<and> \<not> source Pipe_receiver \<and> \<not> source Tcp_listener
   \<and> \<not> source Tcp_stream \<and> \<not> source Unix_datagram \<and> \<not> source Waker
   \<and> source Udp_socket \<and> source Unix_listener \<and> source Raw_fd
   \<and> \<not> register_source_well_formed w
   \<and> \<not> reregister_source_well_formed w
   \<and> \<not> deregister_source_well_formed w"
  by (cases w) (simp_all add: source_def register_source_well_formed_def
      reregister_source_well_formed_def deregister_source_well_formed_def)

section \<open>Indexed access on the batch\<close>

lemma store_events_nth:
  assumes "length es \<le> i" "i < length buf"
  shows "store_events buf es ! i = buf ! i"
proof -
  from assms have "take (length buf) es = es" by simp
  then have "store_events buf es ! i = (es @ drop (length es) buf) ! i"
    by (simp add: store_events_def)
  also from assms have "\<dots> = buf ! i"
    by (simp add: nth_append)
  finally show ?thesis .
qed

lemma deliver_nth:
  assumes "nat (sint (ret r)) \<le> i" "i < length buf"
  shows "deliver buf r ! i = buf ! i"
  using assms by (simp add: deliver_def store_events_nth)

lemma events_index_in_array:
  assumes "unat i < length (events_buf evs)"
  shows "events_index evs i = Some \<lparr>event_raw = events_buf evs ! unat i\<rparr>"
  using assms by (simp add: events_index_def)

lemma do_poll_keeps_slot:
  assumes run: "poll_do_poll K p evs timeout tr = Some (res, evs', tr')"
    and i: "unat (events_len evs') \<le> unat i" "unat i < length (events_buf evs)"
  shows "events_index evs' i = events_index evs i"
proof -
  from do_poll_result [OF run] obtain sres where
    sel: "epoll_selector_select K (poll_sel p) (events_buf evs) (events_raw_capacity evs)
             timeout tr = Some (sres, events_buf evs', tr')"
    and buf: "events_buf evs' = deliver (events_buf evs) (K tr')"
    and c: "(case sres of
          Inl e \<Rightarrow> res = Inl e \<and> events_len evs' = 0
        | Inr n \<Rightarrow> res = Inr () \<and> n = ret (K tr') \<and> 0 \<le> sint n
            \<and> unat (events_len evs') = nat (sint n)
            \<and> (sint n \<le> sint (events_raw_capacity evs)
                 \<longrightarrow> unat (events_len evs') \<le> unat (events_capacity evs)))"
    by blast
  from select_result [OF sel]
  have sres: "sres = (if sint (ret (K tr')) < 0 then Inl \<lparr>error_code = err (K tr')\<rparr>
              else Inr (ret (K tr')))"
    by simp
  have "nat (sint (ret (K tr'))) \<le> unat i"
  proof (cases "sint (ret (K tr')) < 0")
    case True
    then show ?thesis by simp
  next
    case False
    with sres c have "unat (events_len evs') = nat (sint (ret (K tr')))" by simp
    with i(1) show ?thesis by simp
  qed
  then have "events_buf evs' ! unat i = events_buf evs ! unat i"
    unfolding buf using i(2) by (rule deliver_nth)
  moreover have "length (events_buf evs') = length (events_buf evs)"
    unfolding buf by (rule deliver_length)
  ultimately show ?thesis
    by (simp add: events_index_def)
qed

text \<open>
  C10. \<open>operator[]\<close> is unchecked. For every index inside the allocated array it gives
  a view of that slot, whatever the current length is: setting the length or clearing
  the batch does not change what an index gives. A new batch has as many slots as its
  capacity, each holding the zero event its constructor put there, and length 0. After
  a poll, an index at or beyond the new length and inside the array gives the raw event
  that slot held before the poll: stale data, not an error.
\<close>

theorem events_index_unchecked:
  "(unat i < length (events_buf evs) \<longrightarrow>
       events_index evs i = Some \<lparr>event_raw = events_buf evs ! unat i\<rparr>
       \<and> events_index (events_set_len evs l) i = events_index evs i
       \<and> events_index (events_clear evs) i = events_index evs i)
   \<and> length (events_buf (events_new c)) = unat (events_capacity (events_new c))
   \<and> (unat i < unat c \<longrightarrow>
       events_index (events_new c) i = Some \<lparr>event_raw = \<lparr>events = 0, data_u64 = 0\<rparr>\<rparr>)
   \<and> (poll_do_poll K p evs timeout tr = Some (res, evs', tr')
        \<and> unat (events_len evs') \<le> unat i \<and> unat i < length (events_buf evs) \<longrightarrow>
       events_index evs' i = Some \<lparr>event_raw = events_buf evs ! unat i\<rparr>)"
proof (intro conjI impI)
  assume a: "unat i < length (events_buf evs)"
  then show "events_index evs i = Some \<lparr>event_raw = events_buf evs ! unat i\<rparr>"
    by (rule events_index_in_array)
  show "events_index (events_set_len evs l) i = events_index evs i"
    by (simp add: events_index_def events_set_len_def)
  show "events_index (events_clear evs) i = events_index evs i"
    by (simp add: events_index_def events_clear_def)
next
  show "length (events_buf (events_new c)) = unat (events_capacity (events_new c))"
    by (simp add: events_new_def)
next
  assume "unat i < unat c"
  then show "events_index (events_new c) i = Some \<lparr>event_raw = \<lparr>events = 0, data_u64 = 0\<rparr>\<rparr>"
    by (simp add: events_index_def events_new_def)
next
  assume a: "poll_do_poll K p evs timeout tr = Some (res, evs', tr')
        \<and> unat (events_len evs') \<le> unat i \<and> unat i < length (events_buf evs)"
  then have "events_index evs' i = events_index evs i"
    using do_poll_keeps_slot [of K p evs timeout tr res evs' tr' i] by blast
  with a show "events_index evs' i = Some \<lparr>event_raw = events_buf evs ! unat i\<rparr>"
    by (simp add: events_index_in_array)
qed

text \<open>
  A batch of capacity 2 that holds one event from an earlier poll is polled again on an
  idle kernel: its length becomes 0, and index 0 still gives the earlier event.
\<close>

lemma do_poll_idle_stale:
  "poll_do_poll kernel_idle \<lparr>poll_sel = selector_3\<rparr>
      \<lparr>events_buf = [\<lparr>events = EPOLLIN, data_u64 = 7\<rparr>, \<lparr>events = 0, data_u64 = 0\<rparr>],
       events_capacity = 2, events_len = 1\<rparr> (Some 0) [] =
     Some (Inr (),
       \<lparr>events_buf = [\<lparr>events = EPOLLIN, data_u64 = 7\<rparr>, \<lparr>events = 0, data_u64 = 0\<rparr>],
        events_capacity = 2, events_len = 0\<rparr>,
       [Epoll_wait 3 2 0])"
  by (simp add: poll_do_poll_def events_clear_def events_raw_buf_def events_raw_capacity_def
      events_set_len_def select_idle select_timeout_ms_def)

theorem events_index_unchecked_witness:
  "events_index
      \<lparr>events_buf = [\<lparr>events = EPOLLIN, data_u64 = 7\<rparr>, \<lparr>events = 0, data_u64 = 0\<rparr>],
        events_capacity = 2, events_len = 0\<rparr> 0
     = Some \<lparr>event_raw = \<lparr>events = EPOLLIN, data_u64 = 7\<rparr>\<rparr>
   \<and> events_index (events_new 2) 1 = Some \<lparr>event_raw = \<lparr>events = 0, data_u64 = 0\<rparr>\<rparr>
   \<and> events_size (events_new 2) = 0"
  using events_index_unchecked [of 0
      "\<lparr>events_buf = [\<lparr>events = EPOLLIN, data_u64 = 7\<rparr>, \<lparr>events = 0, data_u64 = 0\<rparr>],
        events_capacity = 2, events_len = 1\<rparr>" 0 2 kernel_idle "\<lparr>poll_sel = selector_3\<rparr>"
      "Some 0" "[]" "Inr ()"
      "\<lparr>events_buf = [\<lparr>events = EPOLLIN, data_u64 = 7\<rparr>, \<lparr>events = 0, data_u64 = 0\<rparr>],
        events_capacity = 2, events_len = 0\<rparr>" "[Epoll_wait 3 2 0]"]
    events_index_unchecked [of 1 "events_new 2" 0 2 kernel_idle "\<lparr>poll_sel = selector_3\<rparr>"
      "Some 0" "[]" "Inr ()" "events_new 2" "[]"]
    do_poll_idle_stale
  by (simp add: events_size_def events_new_def)

end
